theory Spec2Isabelle
  imports Complex_Main "HOL-Library.Word" "HOL-Library.AList"
begin

section \<open>JavaScript values\<close>

text \<open>
  A JavaScript string is a sequence of UTF-16 code units: \<open>length\<close>, \<open>substring\<close> and
  \<open>trim\<close> count and inspect code units.  String literals of the source are ASCII and are
  embedded with \<open>lit\<close>.
\<close>

type_synonym code_unit = "16 word"
type_synonym jsstring = "code_unit list"

definition lit :: "string \<Rightarrow> jsstring" where
  "lit s = map of_char s"

definition NL :: jsstring where
  "NL = [0x000A]"

text \<open>
  The values the program handles all arrive in JSON documents (request bodies, job
  payloads, index payloads, provider responses), so a number is a finite double, here a
  rational; \<open>JUndefined\<close> is the value of a missing property.  An object is the list of its
  own properties, the first entry of a key being the one in force.
\<close>

datatype jsval =
    JUndefined
  | JNull
  | JBool bool
  | JNum rat
  | JStr jsstring
  | JArr "jsval list"
  | JObj "(jsstring \<times> jsval) list"

text \<open>
  A thrown value: \<open>Error m\<close> is \<open>new Error(m)\<close> raised by the program's own code,
  \<open>TypeError m\<close> is raised by the runtime (a property read on \<open>undefined\<close>, a call of
  something that is no function, a conversion of an object that has no primitive value),
  with the message in the words of V8, the engine of Node; \<open>External m\<close> is an error thrown
  by a call into an external service or library, with its message.
\<close>

datatype js_error = Error jsstring | TypeError jsstring | External jsstring

fun message :: "js_error \<Rightarrow> jsstring" where
  "message (Error m) = m"
| "message (TypeError m) = m"
| "message (External m) = m"

text \<open>\<open>!v\<close>: the falsy values.\<close>

fun falsy :: "jsval \<Rightarrow> bool" where
  "falsy JUndefined = True"
| "falsy JNull = True"
| "falsy (JBool b) = (\<not> b)"
| "falsy (JNum n) = (n = 0)"
| "falsy (JStr s) = (s = [])"
| "falsy (JArr xs) = False"
| "falsy (JObj fs) = False"

text \<open>
  \<open>v.k\<close> for the property names the program reads (\<open>query\<close>, \<open>path\<close>, \<open>text\<close>,
  \<open>source\<close>), none of which is a property of a primitive's wrapper, of an array or of
  \<open>Object.prototype\<close>: reading it from \<open>undefined\<close> or \<open>null\<close> throws, from an object it
  gives the stored value or \<open>undefined\<close>, from anything else \<open>undefined\<close>.
\<close>

definition cannot_read :: "string \<Rightarrow> string \<Rightarrow> js_error" where
  "cannot_read what k =
     TypeError (lit (''Cannot read properties of '' @ what @ '' (reading '' @ [CHR 0x27] @ k
                     @ [CHR 0x27] @ '')''))"

fun get_prop :: "jsval \<Rightarrow> string \<Rightarrow> js_error + jsval" where
  "get_prop JUndefined k = Inl (cannot_read ''undefined'' k)"
| "get_prop JNull k = Inl (cannot_read ''null'' k)"
| "get_prop (JObj fs) k = Inr (case map_of fs (lit k) of None \<Rightarrow> JUndefined | Some v \<Rightarrow> v)"
| "get_prop v k = Inr JUndefined"

text \<open>\<open>Array.prototype.join\<close> on strings.\<close>

fun js_join :: "jsstring \<Rightarrow> jsstring list \<Rightarrow> jsstring" where
  "js_join sep [] = []"
| "js_join sep [x] = x"
| "js_join sep (x # y # ys) = x @ sep @ js_join sep (y # ys)"

text \<open>
  \<open>String(v)\<close> and the conversion inside a template literal.  The decimal rendering of a
  number is the engine's \<open>Number::toString\<close>, taken as the parameter \<open>ns\<close>.
  \<^item> An object is converted by its \<open>toString\<close>.  An object of a JSON document inherits
    \<open>Object.prototype.toString\<close>, which gives \<open>[object Object]\<close>, unless it has a member
    \<open>toString\<close> of its own; that member is a JSON value, so no function, and the inherited
    \<open>valueOf\<close> returns the object itself: the conversion throws a \<open>TypeError\<close>.
  \<^item> An array is converted by \<open>join\<close>: its elements in order, \<open>null\<close> and \<open>undefined\<close>
    giving the empty string and every other element converted in turn (\<open>join_elements\<close>),
    joined by commas.  The first element whose conversion throws ends it.
\<close>

fun js_String :: "(rat \<Rightarrow> jsstring) \<Rightarrow> jsval \<Rightarrow> js_error + jsstring"
  and join_elements :: "(rat \<Rightarrow> jsstring) \<Rightarrow> jsval list \<Rightarrow> js_error + jsstring list" where
  "js_String ns JUndefined = Inr (lit ''undefined'')"
| "js_String ns JNull = Inr (lit ''null'')"
| "js_String ns (JBool b) = Inr (if b then lit ''true'' else lit ''false'')"
| "js_String ns (JNum n) = Inr (ns n)"
| "js_String ns (JStr s) = Inr s"
| "js_String ns (JArr xs) =
     (case join_elements ns xs of
        Inl e \<Rightarrow> Inl e
      | Inr ss \<Rightarrow> Inr (js_join (lit '','') ss))"
| "js_String ns (JObj fs) =
     (case map_of fs (lit ''toString'') of
        None \<Rightarrow> Inr (lit ''[object Object]'')
      | Some v \<Rightarrow> Inl (TypeError (lit ''Cannot convert object to primitive value'')))"
| "join_elements ns [] = Inr []"
| "join_elements ns (x # xs) =
     (case (if x = JUndefined \<or> x = JNull then Inr [] else js_String ns x) of
        Inl e \<Rightarrow> Inl e
      | Inr s \<Rightarrow>
          (case join_elements ns xs of
             Inl e \<Rightarrow> Inl e
           | Inr ss \<Rightarrow> Inr (s # ss)))"

text \<open>The decimal digits of a non-negative integer, as \<open>`${idx + 1}`\<close> renders it.\<close>

function show_nat :: "nat \<Rightarrow> jsstring" where
  "show_nat n =
     (if n < 10 then [0x0030 + of_nat n]
      else show_nat (n div 10) @ [0x0030 + of_nat (n mod 10)])"
  by pat_completeness auto
termination
  by (relation "measure (\<lambda>n. n)") auto

declare show_nat.simps [simp del]

text \<open>
  \<open>String.prototype.trim\<close> removes the leading and trailing code units that are
  ECMAScript white space or line terminators.
\<close>

definition is_white_space :: "code_unit \<Rightarrow> bool" where
  "is_white_space c \<longleftrightarrow>
     c = 0x0009 \<or> c = 0x000A \<or> c = 0x000B \<or> c = 0x000C \<or> c = 0x000D \<or> c = 0x0020
     \<or> c = 0x00A0 \<or> c = 0x1680 \<or> (0x2000 \<le> c \<and> c \<le> 0x200A)
     \<or> c = 0x2028 \<or> c = 0x2029 \<or> c = 0x202F \<or> c = 0x205F \<or> c = 0x3000 \<or> c = 0xFEFF"

definition js_trim :: "jsstring \<Rightarrow> jsstring" where
  "js_trim s = rev (dropWhile is_white_space (rev (dropWhile is_white_space s)))"

text \<open>\<open>s.substring(0, n)\<close>.\<close>

definition substring0 :: "nat \<Rightarrow> jsstring \<Rightarrow> jsstring" where
  "substring0 n s = take n s"

section \<open>External services\<close>

text \<open>
  A point of the vector index as the worker builds it: \<open>{ id, vector, payload }\<close>.  The
  payload is the object \<open>{ text, chunk_index, source }\<close>; a search returns it as stored.
\<close>

record point =
  point_id :: nat
  point_vector :: "rat list"
  point_payload :: jsval

text \<open>One result of \<open>qdrant.search\<close>: \<open>result.score\<close> and \<open>result.payload\<close>.\<close>

record search_result =
  result_score :: rat
  result_payload :: jsval

text \<open>The argument of \<open>groq.chat.completions.create\<close>; a message is (role, content).\<close>

record gen_request =
  messages :: "(jsstring \<times> jsstring) list"
  model :: jsstring
  temperature :: rat
  max_tokens :: nat
  top_p :: "rat option"
  stream :: bool

text \<open>The calls a handler or a job makes to the outside, in the order made.\<close>

datatype call =
    ReadPdf jsval
  | SplitText jsstring
  | EmbedContent "jsstring list"
  | GetCollection jsstring
  | CreateCollection jsstring nat jsstring
  | Upsert jsstring bool "point list"
  | Search jsstring "rat list option" nat bool
  | CreateChat gen_request

text \<open>
  What the ingestion worker is given.  \<open>'q\<close> is the state of the vector index.  A call
  that throws returns the thrown message (\<open>Inl m\<close>, or \<open>Some m\<close> beside the index state
  the failed call leaves).
  \<^item> \<open>readPdfText p\<close>: \<open>readFile(p)\<close> then \<open>pdf(buffer)\<close>, giving \<open>pdfData.text\<close>;
  \<^item> \<open>splitText\<close>: \<open>CharacterTextSplitter({chunkSize: 1000, chunkOverlap: 100}).splitText\<close>;
  \<^item> \<open>embedContent\<close>: \<open>ai.models.embedContent\<close> of model \<open>gemini-embedding-001\<close>, giving
    \<open>response.embeddings[i].values\<close> for each \<open>i\<close> (the response structure the source's
    comment documents);
  \<^item> \<open>getCollection\<close>, \<open>createCollection\<close> (name, vector size, distance), \<open>upsert\<close> (name,
    \<open>wait\<close>, points): the Qdrant client.
\<close>

record 'q ingest_env =
  numberToString :: "rat \<Rightarrow> jsstring"
  readPdfText :: "jsval \<Rightarrow> jsstring + jsstring"
  splitText :: "jsstring \<Rightarrow> jsstring + jsstring list"
  embedContent :: "jsstring list \<Rightarrow> jsstring + rat list list"
  getCollection :: "jsstring \<Rightarrow> 'q \<Rightarrow> jsstring option"
  createCollection :: "jsstring \<Rightarrow> nat \<Rightarrow> jsstring \<Rightarrow> 'q \<Rightarrow> jsstring option \<times> 'q"
  upsert :: "jsstring \<Rightarrow> bool \<Rightarrow> point list \<Rightarrow> 'q \<Rightarrow> jsstring option \<times> 'q"

text \<open>
  What the query endpoints are given.  They only read the index: \<open>search\<close> (name, vector,
  limit, \<open>with_payload\<close>) is the index at the time of the request.  \<open>create\<close> of the chat
  API returns a completion when \<open>stream\<close> is false and an asynchronous sequence of chunks
  when it is true:
  \<^item> \<open>createCompletion\<close>: for each choice, its \<open>message.content\<close> (\<open>None\<close> when the message
    or the content is missing or \<open>null\<close>);
  \<^item> \<open>createStream\<close>: the chunks, each the \<open>delta.content\<close> of its choices, and the message
    of the error that ends the iteration, if one does.
\<close>

record query_env =
  q_numberToString :: "rat \<Rightarrow> jsstring"
  q_embedContent :: "jsstring list \<Rightarrow> jsstring + rat list list"
  search :: "jsstring \<Rightarrow> rat list option \<Rightarrow> nat \<Rightarrow> bool \<Rightarrow> jsstring + search_result list"
  createCompletion :: "gen_request \<Rightarrow> jsstring + jsstring option list"
  createStream :: "gen_request \<Rightarrow> jsstring + (jsstring option list list \<times> jsstring option)"

section \<open>The embedding adapter (embedding-model.js)\<close>

text \<open>\<open>docs.map((d) => String(d))\<close>: the first conversion that throws ends the mapping.\<close>

fun clean_docs :: "(rat \<Rightarrow> jsstring) \<Rightarrow> jsval list \<Rightarrow> js_error + jsstring list" where
  "clean_docs ns [] = Inr []"
| "clean_docs ns (d # ds) =
     (case js_String ns d of
        Inl e \<Rightarrow> Inl e
      | Inr s \<Rightarrow>
          (case clean_docs ns ds of
             Inl e \<Rightarrow> Inl e
           | Inr ss \<Rightarrow> Inr (s # ss)))"

text \<open>
  \<open>embeddingModel({ docs })\<close>: the result or the thrown error, and the provider calls made.
  The conversion of the elements comes before the provider call and outside the \<open>try\<close>.
  The \<open>console.log\<close> of \<open>embeddings[0].length\<close> throws a \<open>TypeError\<close> when the provider
  returned no embedding; the \<open>catch\<close> rethrows what it caught.
\<close>

definition embeddingModel ::
  "(rat \<Rightarrow> jsstring) \<Rightarrow> (jsstring list \<Rightarrow> jsstring + rat list list) \<Rightarrow> jsval
     \<Rightarrow> (js_error + rat list list) \<times> call list" where
  "embeddingModel ns provider docs =
     (case docs of
        JArr ds \<Rightarrow>
          (case clean_docs ns ds of
             Inl e \<Rightarrow> (Inl e, [])
           | Inr cleanedDocs \<Rightarrow>
               (case provider cleanedDocs of
                  Inl m \<Rightarrow> (Inl (External m), [EmbedContent cleanedDocs])
                | Inr embeddings \<Rightarrow>
                    (if embeddings = []
                     then (Inl (cannot_read ''undefined'' ''length''),
                           [EmbedContent cleanedDocs])
                     else (Inr embeddings, [EmbedContent cleanedDocs]))))
      | _ \<Rightarrow> (Inl (Error (lit ''docs must be an array of strings'')), []))"

section \<open>The ingestion worker (worker.js)\<close>

definition collectionName :: jsstring where
  "collectionName = lit ''pdf-with-chat''"

text \<open>\<open>chunks[i]\<close>: \<open>undefined\<close> past the end of the array.\<close>

definition chunk_at :: "jsstring list \<Rightarrow> nat \<Rightarrow> jsval" where
  "chunk_at chunks i = (if i < length chunks then JStr (chunks ! i) else JUndefined)"

text \<open>\<open>documentEmbeddings.map((vec, i) => ({ id: i + 1, ... }))\<close>, from index \<open>i\<close> on.\<close>

fun points_from :: "nat \<Rightarrow> rat list list \<Rightarrow> jsstring list \<Rightarrow> jsval \<Rightarrow> point list" where
  "points_from i [] chunks path = []"
| "points_from i (vec # vecs) chunks path =
     \<lparr>point_id = i + 1, point_vector = vec,
      point_payload =
        JObj [(lit ''text'', chunk_at chunks i),
              (lit ''chunk_index'', JNum (of_nat i)),
              (lit ''source'', path)]\<rparr>
     # points_from (Suc i) vecs chunks path"

definition points :: "rat list list \<Rightarrow> jsstring list \<Rightarrow> jsval \<Rightarrow> point list" where
  "points documentEmbeddings chunks path = points_from 0 documentEmbeddings chunks path"

text \<open>
  The inner \<open>try\<close>/\<open>catch\<close>: \<open>getCollection\<close>, and on any error of it \<open>createCollection\<close>
  with the size of the first embedding.  An error of \<open>createCollection\<close> is inside the
  \<open>catch\<close> block, so nothing handles it here: it is returned as the thrown error.
\<close>

definition ensureCollection ::
  "'q ingest_env \<Rightarrow> rat list list \<Rightarrow> 'q \<Rightarrow> js_error option \<times> 'q \<times> call list" where
  "ensureCollection env documentEmbeddings q =
     (case getCollection env collectionName q of
        None \<Rightarrow> (None, q, [GetCollection collectionName])
      | Some m \<Rightarrow>
          (case documentEmbeddings of
             [] \<Rightarrow> (Some (cannot_read ''undefined'' ''length''), q,
                    [GetCollection collectionName])
           | vec # vecs \<Rightarrow>
               (case createCollection env collectionName (length vec) (lit ''Cosine'') q of
                  (None, q') \<Rightarrow>
                    (None, q', [GetCollection collectionName,
                                CreateCollection collectionName (length vec) (lit ''Cosine'')])
                | (Some m', q') \<Rightarrow>
                    (Some (External m'), q',
                     [GetCollection collectionName,
                      CreateCollection collectionName (length vec) (lit ''Cosine'')]))))"

text \<open>
  The job processor, on the parsed job payload \<open>data = JSON.parse(job.data)\<close>: the value
  returned or the error rethrown by the outer \<open>catch\<close>, the state of the index afterwards,
  and the calls made.
\<close>

definition worker ::
  "'q ingest_env \<Rightarrow> jsval \<Rightarrow> 'q \<Rightarrow> (js_error + jsval) \<times> 'q \<times> call list" where
  "worker env data q =
     (case get_prop data ''path'' of
        Inl e \<Rightarrow> (Inl e, q, [])
      | Inr path \<Rightarrow>
     (case readPdfText env path of
        Inl m \<Rightarrow> (Inl (External m), q, [ReadPdf path])
      | Inr text \<Rightarrow>
     (case splitText env text of
        Inl m \<Rightarrow> (Inl (External m), q, [ReadPdf path, SplitText text])
      | Inr chunks \<Rightarrow>
     (case embeddingModel (numberToString env) (embedContent env) (JArr (map JStr chunks)) of
        (Inl e, tr) \<Rightarrow> (Inl e, q, [ReadPdf path, SplitText text] @ tr)
      | (Inr documentEmbeddings, tr) \<Rightarrow>
     (case ensureCollection env documentEmbeddings q of
        (Some e, q', tr') \<Rightarrow> (Inl e, q', [ReadPdf path, SplitText text] @ tr @ tr')
      | (None, q', tr') \<Rightarrow>
     (case upsert env collectionName True (points documentEmbeddings chunks path) q' of
        (Some m, q'') \<Rightarrow>
          (Inl (External m), q'',
           [ReadPdf path, SplitText text] @ tr @ tr'
             @ [Upsert collectionName True (points documentEmbeddings chunks path)])
      | (None, q'') \<Rightarrow>
          (Inr (JObj [(lit ''success'', JBool True),
                      (lit ''chunks'', JNum (of_nat (length chunks)))]), q'',
           [ReadPdf path, SplitText text] @ tr @ tr'
             @ [Upsert collectionName True (points documentEmbeddings chunks path)])))))))"

section \<open>The query endpoints (the Express server)\<close>

text \<open>
  What a handler sends: \<open>res.status(s).json(v)\<close> (\<open>res.json(v)\<close> has status 200), or the
  events \<open>res.write(`data: ${JSON.stringify(v)}\n\n`)\<close> wrote before \<open>res.end()\<close>, with
  whether the event-stream headers had been set.  \<open>v\<close> is the value handed over.
\<close>

datatype http_response = Json nat jsval | EventStream bool "jsval list"

text \<open>
  \<open>const { query } = req.body\<close>.  \<open>req.body\<close> is \<open>undefined\<close> when the request had no body
  that the JSON middleware parsed and the middleware leaves it so; destructuring it throws.
\<close>

definition cannot_destructure :: "string \<Rightarrow> js_error" where
  "cannot_destructure what =
     TypeError (lit (''Cannot destructure property '' @ [CHR 0x27] @ ''query'' @ [CHR 0x27]
                     @ '' of '' @ [CHR 0x27] @ ''req.body'' @ [CHR 0x27] @ '' as it is ''
                     @ what @ ''.''))"

fun query_of_body :: "jsval \<Rightarrow> js_error + jsval" where
  "query_of_body JUndefined = Inl (cannot_destructure ''undefined'')"
| "query_of_body JNull = Inl (cannot_destructure ''null'')"
| "query_of_body body = get_prop body ''query''"

text \<open>
  \<open>!query || query.trim() === ''\<close>: \<open>None\<close> when the test holds (the request is
  rejected), the query string when it does not.  A truthy value that is no string has no
  \<open>trim\<close> method, and the call throws.
\<close>

fun validate_query :: "jsval \<Rightarrow> js_error + jsstring option" where
  "validate_query (JStr s) = Inr (if s = [] \<or> js_trim s = [] then None else Some s)"
| "validate_query v =
     (if falsy v then Inr None else Inl (TypeError (lit ''query.trim is not a function'')))"

definition query_required :: http_response where
  "query_required = Json 400 (JObj [(lit ''error'', JStr (lit ''Query is required''))])"

text \<open>The \<open>catch\<close> of \<open>/chat\<close> and of \<open>/chat/stream\<close>.\<close>

definition chat_failed :: "js_error \<Rightarrow> http_response" where
  "chat_failed e =
     Json 500 (JObj [(lit ''error'', JStr (lit ''Failed to process chat request'')),
                     (lit ''details'', JStr (message e))])"

definition error_event :: "js_error \<Rightarrow> jsval" where
  "error_event e = JObj [(lit ''error'', JStr (message e))]"

text \<open>
  \<open>searchResults.map((result, idx) => `[Chunk ${idx + 1}] ${result.payload.text}`)\<close>, from
  index \<open>idx\<close> on; reading \<open>text\<close> of a missing payload throws, and so does the
  conversion of a text that has no string form.
\<close>

fun chunk_labels :: "(rat \<Rightarrow> jsstring) \<Rightarrow> nat \<Rightarrow> search_result list \<Rightarrow> js_error + jsstring list" where
  "chunk_labels ns idx [] = Inr []"
| "chunk_labels ns idx (result # results) =
     (case get_prop (result_payload result) ''text'' of
        Inl e \<Rightarrow> Inl e
      | Inr t \<Rightarrow>
          (case js_String ns t of
             Inl e \<Rightarrow> Inl e
           | Inr s \<Rightarrow>
               (case chunk_labels ns (Suc idx) results of
                  Inl e \<Rightarrow> Inl e
                | Inr ls \<Rightarrow>
                    Inr ((lit ''[Chunk '' @ show_nat (idx + 1) @ lit ''] '' @ s) # ls))))"

definition context_of :: "(rat \<Rightarrow> jsstring) \<Rightarrow> search_result list \<Rightarrow> js_error + jsstring" where
  "context_of ns searchResults =
     (case chunk_labels ns 0 searchResults of
        Inl e \<Rightarrow> Inl e
      | Inr ls \<Rightarrow> Inr (js_join (NL @ NL) ls))"

text \<open>The system prompt of \<open>/chat\<close>: the text before \<open>${context}\<close> and the text after it.\<close>

definition chat_preamble :: jsstring where
  "chat_preamble =
     lit ''You are a helpful AI assistant that answers questions based STRICTLY on the provided PDF document context. '' @ NL
     @ NL
     @ lit ''CRITICAL RULES:'' @ NL
     @ lit ''1. ONLY use information from the context below to answer questions'' @ NL
     @ lit ''2. If the answer is not in the context, say \"I cannot find this information in the provided document\"'' @ NL
     @ lit ''3. DO NOT use your general knowledge or make up information'' @ NL
     @ lit ''4. Quote relevant parts from the context when answering'' @ NL
     @ lit ''5. If the context is insufficient, ask for clarification or state what information is missing'' @ NL
     @ lit ''6. Be concise and accurate'' @ NL
     @ NL
     @ lit ''CONTEXT FROM PDF DOCUMENT:'' @ NL"

definition chat_reminder :: jsstring where
  "chat_reminder =
     NL @ NL
     @ lit ''Remember: Your answer must be based ONLY on the context above. If you cannot answer from the context, clearly state that.''"

definition chat_systemPrompt :: "jsstring \<Rightarrow> jsstring" where
  "chat_systemPrompt ctx = chat_preamble @ ctx @ chat_reminder"

text \<open>The system prompt of \<open>/chat/stream\<close>, which ends with \<open>${context}\<close>.\<close>

definition stream_preamble :: jsstring where
  "stream_preamble =
     lit ''You are a helpful AI assistant that answers questions based STRICTLY on the provided PDF document context. '' @ NL
     @ NL
     @ lit ''CRITICAL RULES:'' @ NL
     @ lit ''1. ONLY use information from the context below to answer questions'' @ NL
     @ lit ''2. If the answer is not in the context, say \"I cannot find this information in the provided document\"'' @ NL
     @ lit ''3. DO NOT use your general knowledge or make up information'' @ NL
     @ lit ''4. Quote relevant parts from the context when answering'' @ NL
     @ lit ''5. Be concise and accurate'' @ NL
     @ NL
     @ lit ''CONTEXT FROM PDF DOCUMENT:'' @ NL"

definition stream_systemPrompt :: "jsstring \<Rightarrow> jsstring" where
  "stream_systemPrompt ctx = stream_preamble @ ctx"

definition chat_request :: "jsstring \<Rightarrow> jsstring \<Rightarrow> gen_request" where
  "chat_request systemPrompt query =
     \<lparr>messages = [(lit ''system'', systemPrompt), (lit ''user'', query)],
      model = lit ''llama-3.3-70b-versatile'',
      temperature = 3 / 10, max_tokens = 2048, top_p = Some (9 / 10), stream = False\<rparr>"

definition stream_request :: "jsstring \<Rightarrow> jsstring \<Rightarrow> gen_request" where
  "stream_request systemPrompt query =
     \<lparr>messages = [(lit ''system'', systemPrompt), (lit ''user'', query)],
      model = lit ''llama-3.3-70b-versatile'',
      temperature = 3 / 10, max_tokens = 2048, top_p = None, stream = True\<rparr>"

text \<open>\<open>chatCompletion.choices[0]?.message?.content || "No response generated"\<close>.\<close>

fun answer_of :: "jsstring option list \<Rightarrow> jsstring" where
  "answer_of (Some content # choices) =
     (if content = [] then lit ''No response generated'' else content)"
| "answer_of choices = lit ''No response generated''"

text \<open>
  \<open>searchResults.map((result, idx) => ({ chunk_index: idx + 1, text: ..., score: ...,
  source: ... }))\<close>, from index \<open>idx\<close> on.  \<open>substring\<close> is a method of strings only.
\<close>

fun sources_from :: "nat \<Rightarrow> search_result list \<Rightarrow> js_error + jsval list" where
  "sources_from idx [] = Inr []"
| "sources_from idx (result # results) =
     (case get_prop (result_payload result) ''text'' of
        Inl e \<Rightarrow> Inl e
      | Inr (JStr t) \<Rightarrow>
          (case get_prop (result_payload result) ''source'' of
             Inl e \<Rightarrow> Inl e
           | Inr src \<Rightarrow>
               (case sources_from (Suc idx) results of
                  Inl e \<Rightarrow> Inl e
                | Inr entries \<Rightarrow>
                    Inr (JObj [(lit ''chunk_index'', JNum (of_nat (idx + 1))),
                               (lit ''text'', JStr (substring0 200 t @ lit ''...'')),
                               (lit ''score'', JNum (result_score result)),
                               (lit ''source'', src)]
                         # entries)))
      | Inr JUndefined \<Rightarrow> Inl (cannot_read ''undefined'' ''substring'')
      | Inr JNull \<Rightarrow> Inl (cannot_read ''null'' ''substring'')
      | Inr v \<Rightarrow> Inl (TypeError (lit ''result.payload.text.substring is not a function'')))"

definition no_information :: jsstring where
  "no_information =
     lit ''I couldn't find any relevant information in the uploaded PDF to answer your question. Please make sure you've uploaded a PDF document first.''"

text \<open>\<open>app.post('/chat', ...)\<close> on the request body: the response and the calls made.\<close>

definition chat :: "query_env \<Rightarrow> jsval \<Rightarrow> http_response \<times> call list" where
  "chat env body =
     (case query_of_body body of
        Inl e \<Rightarrow> (chat_failed e, [])
      | Inr query \<Rightarrow>
     (case validate_query query of
        Inl e \<Rightarrow> (chat_failed e, [])
      | Inr None \<Rightarrow> (query_required, [])
      | Inr (Some q) \<Rightarrow>
     (case embeddingModel (q_numberToString env) (q_embedContent env) (JArr [JStr q]) of
        (Inl e, tr) \<Rightarrow> (chat_failed e, tr)
      | (Inr [], tr) \<Rightarrow>
          (chat_failed (Error (lit ''Failed to generate query embedding'')), tr)
      | (Inr (vec # vecs), tr) \<Rightarrow>
     (case search env collectionName (Some vec) 5 True of
        Inl m \<Rightarrow> (chat_failed (External m), tr @ [Search collectionName (Some vec) 5 True])
      | Inr [] \<Rightarrow>
          (Json 200 (JObj [(lit ''answer'', JStr no_information), (lit ''sources'', JArr [])]),
           tr @ [Search collectionName (Some vec) 5 True])
      | Inr searchResults \<Rightarrow>
     (case context_of (q_numberToString env) searchResults of
        Inl e \<Rightarrow> (chat_failed e, tr @ [Search collectionName (Some vec) 5 True])
      | Inr ctx \<Rightarrow>
     (case createCompletion env (chat_request (chat_systemPrompt ctx) q) of
        Inl m \<Rightarrow>
          (chat_failed (External m),
           tr @ [Search collectionName (Some vec) 5 True,
                 CreateChat (chat_request (chat_systemPrompt ctx) q)])
      | Inr choices \<Rightarrow>
     (case sources_from 0 searchResults of
        Inl e \<Rightarrow>
          (chat_failed e,
           tr @ [Search collectionName (Some vec) 5 True,
                 CreateChat (chat_request (chat_systemPrompt ctx) q)])
      | Inr entries \<Rightarrow>
          (Json 200 (JObj [(lit ''answer'', JStr (answer_of choices)),
                           (lit ''sources'', JArr entries)]),
           tr @ [Search collectionName (Some vec) 5 True,
                 CreateChat (chat_request (chat_systemPrompt ctx) q)]))))))))"

text \<open>
  The loop of \<open>/chat/stream\<close>: for each chunk, \<open>chunk.choices[0]?.delta?.content || ''\<close>,
  written as a \<open>{ content }\<close> event when it is not empty.
\<close>

fun delta_content :: "jsstring option list \<Rightarrow> jsstring" where
  "delta_content (Some content # choices) = content"
| "delta_content choices = []"

fun content_events :: "jsstring option list list \<Rightarrow> jsval list" where
  "content_events [] = []"
| "content_events (chunk # chunks) =
     (if delta_content chunk = [] then content_events chunks
      else JObj [(lit ''content'', JStr (delta_content chunk))] # content_events chunks)"

definition done_event :: jsval where
  "done_event = JObj [(lit ''done'', JBool True)]"

definition no_context_event :: jsval where
  "no_context_event =
     JObj [(lit ''done'', JBool True), (lit ''answer'', JStr (lit ''No relevant context found.''))]"

text \<open>\<open>queryEmbedding[0]\<close>.\<close>

fun first_vector :: "rat list list \<Rightarrow> rat list option" where
  "first_vector [] = None"
| "first_vector (vec # vecs) = Some vec"

text \<open>
  \<open>app.post('/chat/stream', ...)\<close> on the request body.  An error thrown before
  \<open>res.setHeader\<close> reaches the \<open>catch\<close> with the headers not yet set.
\<close>

definition chat_stream :: "query_env \<Rightarrow> jsval \<Rightarrow> http_response \<times> call list" where
  "chat_stream env body =
     (case query_of_body body of
        Inl e \<Rightarrow> (EventStream False [error_event e], [])
      | Inr query \<Rightarrow>
     (case validate_query query of
        Inl e \<Rightarrow> (EventStream False [error_event e], [])
      | Inr None \<Rightarrow> (query_required, [])
      | Inr (Some q) \<Rightarrow>
     (case embeddingModel (q_numberToString env) (q_embedContent env) (JArr [JStr q]) of
        (Inl e, tr) \<Rightarrow> (EventStream True [error_event e], tr)
      | (Inr queryEmbedding, tr) \<Rightarrow>
     (case search env collectionName (first_vector queryEmbedding) 5 True of
        Inl m \<Rightarrow>
          (EventStream True [error_event (External m)],
           tr @ [Search collectionName (first_vector queryEmbedding) 5 True])
      | Inr [] \<Rightarrow>
          (EventStream True [no_context_event],
           tr @ [Search collectionName (first_vector queryEmbedding) 5 True])
      | Inr searchResults \<Rightarrow>
     (case context_of (q_numberToString env) searchResults of
        Inl e \<Rightarrow>
          (EventStream True [error_event e],
           tr @ [Search collectionName (first_vector queryEmbedding) 5 True])
      | Inr ctx \<Rightarrow>
     (case createStream env (stream_request (stream_systemPrompt ctx) q) of
        Inl m \<Rightarrow>
          (EventStream True [error_event (External m)],
           tr @ [Search collectionName (first_vector queryEmbedding) 5 True,
                 CreateChat (stream_request (stream_systemPrompt ctx) q)])
      | Inr (chunks, None) \<Rightarrow>
          (EventStream True (content_events chunks @ [done_event]),
           tr @ [Search collectionName (first_vector queryEmbedding) 5 True,
                 CreateChat (stream_request (stream_systemPrompt ctx) q)])
      | Inr (chunks, Some m) \<Rightarrow>
          (EventStream True (content_events chunks @ [error_event (External m)]),
           tr @ [Search collectionName (first_vector queryEmbedding) 5 True,
                 CreateChat (stream_request (stream_systemPrompt ctx) q)])))))))"

section \<open>A reference vector index\<close>

text \<open>
  The vector index is an external service.  For the scenarios that need its behaviour, it
  is the in-memory index below: collections by name, each with its vector size, its
  distance and its points by id.  \<open>getCollection\<close> throws when the name is unknown,
  \<open>createCollection\<close> throws when the name is taken, and \<open>upsert\<close> stores each point under
  its id, replacing the point that had the id.
\<close>

record collection =
  vector_size :: nat
  distance :: jsstring
  stored :: "(nat \<times> point) list"

type_synonym mem_index = "(jsstring \<times> collection) list"

definition mem_getCollection :: "jsstring \<Rightarrow> mem_index \<Rightarrow> jsstring option" where
  "mem_getCollection name ix =
     (case map_of ix name of None \<Rightarrow> Some (lit ''Not found'') | Some c \<Rightarrow> None)"

definition mem_createCollection ::
  "jsstring \<Rightarrow> nat \<Rightarrow> jsstring \<Rightarrow> mem_index \<Rightarrow> jsstring option \<times> mem_index" where
  "mem_createCollection name vsize metric ix =
     (case map_of ix name of
        Some c \<Rightarrow> (Some (lit ''Collection already exists''), ix)
      | None \<Rightarrow>
          (None, ix @ [(name, \<lparr>vector_size = vsize, distance = metric, stored = []\<rparr>)]))"

definition mem_upsert ::
  "jsstring \<Rightarrow> bool \<Rightarrow> point list \<Rightarrow> mem_index \<Rightarrow> jsstring option \<times> mem_index" where
  "mem_upsert name wait ps ix =
     (case map_of ix name of
        None \<Rightarrow> (Some (lit ''Not found''), ix)
      | Some c \<Rightarrow>
          (None,
           AList.update name
             (c\<lparr>stored := fold (\<lambda>p al. AList.update (point_id p) p al) ps (stored c)\<rparr>) ix))"

definition mem_env ::
  "(jsval \<Rightarrow> jsstring + jsstring) \<Rightarrow> (jsstring \<Rightarrow> jsstring + jsstring list)
     \<Rightarrow> (jsstring list \<Rightarrow> jsstring + rat list list) \<Rightarrow> mem_index ingest_env" where
  "mem_env rd sp em =
     \<lparr>numberToString = (\<lambda>r. []), readPdfText = rd, splitText = sp, embedContent = em,
      getCollection = mem_getCollection, createCollection = mem_createCollection,
      upsert = mem_upsert\<rparr>"

section \<open>Concurrent jobs at the collection check\<close>

text \<open>
  The worker runs up to ten jobs at once (\<open>concurrency: 10\<close>); jobs interleave at each
  \<open>await\<close>.  Between \<open>await qdrant.getCollection\<close> and \<open>await qdrant.createCollection\<close>
  another job may run, so the inner \<open>try\<close>/\<open>catch\<close> is two steps: the check, and the
  creation when the check threw.
\<close>

datatype ensure_pc = Checking | Creating | Ensured | Threw js_error

fun ensure_step :: "'q ingest_env \<Rightarrow> rat list list \<Rightarrow> ensure_pc \<times> 'q \<Rightarrow> ensure_pc \<times> 'q" where
  "ensure_step env documentEmbeddings (Checking, q) =
     (case getCollection env collectionName q of
        None \<Rightarrow> (Ensured, q)
      | Some m \<Rightarrow> (Creating, q))"
| "ensure_step env documentEmbeddings (Creating, q) =
     (case documentEmbeddings of
        [] \<Rightarrow> (Threw (cannot_read ''undefined'' ''length''), q)
      | vec # vecs \<Rightarrow>
          (case createCollection env collectionName (length vec) (lit ''Cosine'') q of
             (None, q') \<Rightarrow> (Ensured, q')
           | (Some m, q') \<Rightarrow> (Threw (External m), q')))"
| "ensure_step env documentEmbeddings (Ensured, q) = (Ensured, q)"
| "ensure_step env documentEmbeddings (Threw e, q) = (Threw e, q)"

text \<open>
  Two jobs on one index, with the embeddings each obtained before its check.  The schedule
  says whose step is next: \<open>True\<close> the first job's, \<open>False\<close> the second's.
\<close>

fun interleave ::
  "'q ingest_env \<Rightarrow> rat list list \<Rightarrow> rat list list \<Rightarrow> bool list
     \<Rightarrow> ensure_pc \<times> ensure_pc \<times> 'q \<Rightarrow> ensure_pc \<times> ensure_pc \<times> 'q" where
  "interleave env emb1 emb2 [] s = s"
| "interleave env emb1 emb2 (first # schedule) (pc1, pc2, q) =
     (if first
      then (case ensure_step env emb1 (pc1, q) of
              (pc1', q') \<Rightarrow> interleave env emb1 emb2 schedule (pc1', pc2, q'))
      else (case ensure_step env emb2 (pc2, q) of
              (pc2', q') \<Rightarrow> interleave env emb1 emb2 schedule (pc1, pc2', q')))"

text \<open>The \<open>qdrant.upsert\<close> calls among the calls made.\<close>

fun is_upsert :: "call \<Rightarrow> bool" where
  "is_upsert (Upsert name wait ps) = True"
| "is_upsert c = False"

text \<open>
  What a client reads off the responses: the text of the streamed fragments, the
  \<open>content\<close> of the events in the order written, and the \<open>answer\<close> of a JSON response.
\<close>

definition event_content :: "jsval \<Rightarrow> jsstring" where
  "event_content ev = (case get_prop ev ''content'' of Inr (JStr c) \<Rightarrow> c | _ \<Rightarrow> [])"

fun streamed_text :: "http_response \<Rightarrow> jsstring" where
  "streamed_text (EventStream headers evs) = concat (map event_content evs)"
| "streamed_text (Json st b) = []"

fun answer_text :: "http_response \<Rightarrow> jsstring" where
  "answer_text (Json st b) = (case get_prop b ''answer'' of Inr (JStr a) \<Rightarrow> a | _ \<Rightarrow> [])"
| "answer_text (EventStream headers evs) = []"

text \<open>The number a string of decimal digits denotes.\<close>

definition read_nat :: "jsstring \<Rightarrow> nat" where
  "read_nat s = foldl (\<lambda>n c. 10 * n + unat (c - 0x0030)) 0 s"

text \<open>
  The values \<open>String\<close> cannot convert: an object with a member \<open>toString\<close> of its own, and
  an array with such an element, at any depth of arrays.
\<close>

fun no_string_form :: "jsval \<Rightarrow> bool" where
  "no_string_form (JObj fs) = (map_of fs (lit ''toString'') \<noteq> None)"
| "no_string_form (JArr xs) = list_ex no_string_form xs"
| "no_string_form v = False"

section \<open>Example inputs\<close>

definition demo_embed :: "jsstring list \<Rightarrow> jsstring + rat list list" where
  "demo_embed docs = Inr (map (\<lambda>d. [1, 0]) docs)"

definition demo_query_env ::
  "search_result list \<Rightarrow> jsstring option list \<Rightarrow> jsstring option list list \<Rightarrow> query_env" where
  "demo_query_env results choices chunks =
     \<lparr>q_numberToString = (\<lambda>r. []), q_embedContent = demo_embed,
      search = (\<lambda>name vec limit with_payload. Inr results),
      createCompletion = (\<lambda>req. Inr choices),
      createStream = (\<lambda>req. Inr (chunks, None))\<rparr>"

definition body_with_query :: "jsval \<Rightarrow> jsval" where
  "body_with_query v = JObj [(lit ''query'', v)]"

text \<open>
  Two uploaded documents of one chunk each, and the job message the server enqueues for an
  upload: \<open>{ filename, destination, path }\<close>.
\<close>

definition demo_read :: "jsval \<Rightarrow> jsstring + jsstring" where
  "demo_read p =
     (if p = JStr (lit ''a.pdf'') then Inr (lit ''alpha'')
      else if p = JStr (lit ''b.pdf'') then Inr (lit ''beta'')
      else Inl (lit ''ENOENT''))"

definition demo_split :: "jsstring \<Rightarrow> jsstring + jsstring list" where
  "demo_split t = Inr [t]"

definition demo_job :: "string \<Rightarrow> jsval" where
  "demo_job name =
     JObj [(lit ''filename'', JStr (lit name)), (lit ''destination'', JStr (lit ''uploads'')),
           (lit ''path'', JStr (lit name))]"

definition failing_embed :: "jsstring list \<Rightarrow> jsstring + rat list list" where
  "failing_embed docs = Inl (lit ''503 Service Unavailable'')"


definition demo_result :: search_result where
  "demo_result =
     \<lparr>result_score = 1 / 2,
      result_payload = JObj [(lit ''text'', JStr (lit ''alpha'')),
                             (lit ''chunk_index'', JNum 0),
                             (lit ''source'', JStr (lit ''a.pdf''))]\<rparr>"

text \<open>A splitter that cuts a text into three chunks, and search results of three kinds.\<close>

definition demo_split3 :: "jsstring \<Rightarrow> jsstring + jsstring list" where
  "demo_split3 t = Inr [take 2 t, take 2 (drop 2 t), drop 4 t]"

definition demo_result2 :: search_result where
  "demo_result2 =
     \<lparr>result_score = 1 / 4,
      result_payload = JObj [(lit ''text'', JStr (lit ''beta'')),
                             (lit ''chunk_index'', JNum 0),
                             (lit ''source'', JStr (lit ''b.pdf''))]\<rparr>"

definition demo_result3 :: search_result where
  "demo_result3 =
     \<lparr>result_score = 1 / 8,
      result_payload = JObj [(lit ''chunk_index'', JNum 1),
                             (lit ''source'', JStr (lit ''b.pdf''))]\<rparr>"

text \<open>Documents of every kind of JSON value but numbers.\<close>

definition demo_docs :: "jsval list" where
  "demo_docs =
     [JStr (lit ''a''), JNull, JBool True,
      JArr [JStr (lit ''b''), JNull, JArr [JStr (lit ''c''), JBool False]],
      JObj [(lit ''k'', JStr (lit ''v''))]]"

section \<open>Properties\<close>

subsection \<open>Strings\<close>

lemma js_trim_empty: "js_trim s = [] \<longleftrightarrow> (\<forall>c\<in>set s. is_white_space c)"
proof
  assume "js_trim s = []"
  then have a: "\<forall>c\<in>set (dropWhile is_white_space s). is_white_space c"
    unfolding js_trim_def by simp
  have b: "\<forall>c\<in>set (takeWhile is_white_space s). is_white_space c"
    by (meson set_takeWhileD)
  have "set s = set (takeWhile is_white_space s) \<union> set (dropWhile is_white_space s)"
    by (metis set_append takeWhile_dropWhile_id)
  with a b show "\<forall>c\<in>set s. is_white_space c" by blast
next
  assume "\<forall>c\<in>set s. is_white_space c"
  then have "dropWhile is_white_space s = []" by simp
  then show "js_trim s = []" by (simp add: js_trim_def del: dropWhile_eq_Nil_conv)
qed

subsection \<open>Query validation\<close>

lemma chat_400:
  "fst (chat env body) = Json 400 b \<Longrightarrow> chat env body = (query_required, [])"
  unfolding chat_def
  by (auto simp: chat_failed_def query_required_def split: sum.splits option.splits prod.splits list.splits)

lemma chat_stream_400:
  "fst (chat_stream env body) = Json s b \<Longrightarrow> chat_stream env body = (query_required, [])"
  unfolding chat_stream_def
  by (auto simp: query_required_def split: sum.splits option.splits prod.splits list.splits)

lemma clean_docs_strings: "clean_docs ns (map JStr ss) = Inr ss"
  by (induction ss) auto

lemma embeddingModel_snd:
  "snd (embeddingModel ns provider (JArr (map JStr ss))) = [EmbedContent ss]"
  by (auto simp: embeddingModel_def clean_docs_strings split: sum.splits if_splits)

lemma chat_first_call:
  assumes "query_of_body body = Inr query" and "validate_query query = Inr (Some s)"
  shows "\<exists>tr. snd (chat env body) = EmbedContent [s] # tr"
proof -
  obtain r tr where e: "embeddingModel (q_numberToString env) (q_embedContent env) (JArr [JStr s]) = (r, tr)"
    by (cases "embeddingModel (q_numberToString env) (q_embedContent env) (JArr [JStr s])")
  then have "tr = [EmbedContent [s]]"
    using embeddingModel_snd[of "q_numberToString env" "q_embedContent env" "[s]"] by simp
  with e assms show ?thesis
    unfolding chat_def
    by (auto split: sum.splits option.splits prod.splits list.splits)
qed

lemma chat_stream_first_call:
  assumes "query_of_body body = Inr query" and "validate_query query = Inr (Some s)"
  shows "\<exists>tr. snd (chat_stream env body) = EmbedContent [s] # tr"
proof -
  obtain r tr where e: "embeddingModel (q_numberToString env) (q_embedContent env) (JArr [JStr s]) = (r, tr)"
    by (cases "embeddingModel (q_numberToString env) (q_embedContent env) (JArr [JStr s])")
  then have "tr = [EmbedContent [s]]"
    using embeddingModel_snd[of "q_numberToString env" "q_embedContent env" "[s]"] by simp
  with e assms show ?thesis
    unfolding chat_stream_def
    by (auto split: sum.splits option.splits prod.splits list.splits)
qed

lemma chat_validate_threw:
  assumes "query_of_body body = Inr query" and "validate_query query = Inl e"
  shows "chat env body = (chat_failed e, [])"
    and "chat_stream env body = (EventStream False [error_event e], [])"
  using assms by (simp_all add: chat_def chat_stream_def)

text \<open>
  Claim C4, as amended.  Let the request have a body from which \<open>query\<close> is read
  (\<open>req.body\<close> is neither \<open>undefined\<close> nor \<open>null\<close>).  When the query is absent, empty or
  made of white space only (or is another falsy value), both \<open>/chat\<close> and \<open>/chat/stream\<close>
  answer \<open>400 { error: 'Query is required' }\<close> and have made no call to the embedding
  provider, the index or the generation provider.  For every other query neither endpoint
  answers with status 400, and when the query is a string the first thing each does is
  the embedding call for it.
\<close>

theorem query_validation:
  assumes "query_of_body body = Inr query"
  shows "if falsy query \<or> (\<exists>s. query = JStr s \<and> (\<forall>c\<in>set s. is_white_space c))
         then chat env body = (query_required, [])
            \<and> chat_stream env body = (query_required, [])
         else (\<forall>b. fst (chat env body) \<noteq> Json 400 b)
            \<and> (\<forall>st b. fst (chat_stream env body) \<noteq> Json st b)
            \<and> (\<forall>s. query = JStr s
                  \<longrightarrow> (\<exists>tr. snd (chat env body) = EmbedContent [s] # tr)
                    \<and> (\<exists>tr. snd (chat_stream env body) = EmbedContent [s] # tr))"
proof (cases "falsy query \<or> (\<exists>s. query = JStr s \<and> (\<forall>c\<in>set s. is_white_space c))")
  case True
  then have "validate_query query = Inr None"
    by (cases query) (auto simp: js_trim_empty)
  with True assms show ?thesis
    by (simp add: chat_def chat_stream_def)
next
  case False
  show ?thesis
  proof (cases "\<exists>s. query = JStr s")
    case True
    then obtain s where q: "query = JStr s" ..
    with False have ne: "\<not> (\<forall>c\<in>set s. is_white_space c)" by auto
    from ne have "js_trim s \<noteq> []" by (simp add: js_trim_empty)
    moreover from ne have "s \<noteq> []" by auto
    ultimately have v: "validate_query query = Inr (Some s)" using q by simp
    from chat_first_call[OF assms v] obtain tr where
      t: "snd (chat env body) = EmbedContent [s] # tr" ..
    from chat_stream_first_call[OF assms v] obtain tr' where
      t': "snd (chat_stream env body) = EmbedContent [s] # tr'" ..
    have a: "fst (chat env body) \<noteq> Json 400 b" for b
      using chat_400[of env body b] t by auto
    have b: "fst (chat_stream env body) \<noteq> Json st b" for st b
      using chat_stream_400[of env body st b] t' by auto
    from False a b t t' q show ?thesis by auto
  next
    case nostr: False
    with False obtain e where v: "validate_query query = Inl e"
      by (cases query) auto
    from chat_validate_threw[OF assms v, of env] nostr False show ?thesis
      by (auto simp: chat_failed_def)
  qed
qed

theorem query_validation_witness:
  "query_of_body (JObj []) = Inr JUndefined
   \<and> chat (demo_query_env [] [] []) (JObj []) = (query_required, [])
   \<and> chat_stream (demo_query_env [] [] []) (JObj []) = (query_required, [])
   \<and> query_of_body (body_with_query (JStr [0x0020, 0x0009, 0x00A0, 0x3000]))
       = Inr (JStr [0x0020, 0x0009, 0x00A0, 0x3000])
   \<and> chat (demo_query_env [] [] []) (body_with_query (JStr [0x0020, 0x0009, 0x00A0, 0x3000]))
       = (query_required, [])
   \<and> chat_stream (demo_query_env [] [] [])
         (body_with_query (JStr [0x0020, 0x0009, 0x00A0, 0x3000]))
       = (query_required, [])
   \<and> query_of_body (body_with_query (JStr (lit '' hi ''))) = Inr (JStr (lit '' hi ''))
   \<and> (\<exists>tr. snd (chat (demo_query_env [] [] []) (body_with_query (JStr (lit '' hi ''))))
             = EmbedContent [lit '' hi ''] # tr)
   \<and> (\<exists>tr. snd (chat_stream (demo_query_env [] [] []) (body_with_query (JStr (lit '' hi ''))))
             = EmbedContent [lit '' hi ''] # tr)"
proof -
  have q0: "query_of_body (JObj []) = Inr JUndefined" by simp
  have q1: "query_of_body (body_with_query (JStr [0x0020, 0x0009, 0x00A0, 0x3000]))
       = Inr (JStr [0x0020, 0x0009, 0x00A0, 0x3000])"
    by (simp add: body_with_query_def)
  have q2: "query_of_body (body_with_query (JStr (lit '' hi ''))) = Inr (JStr (lit '' hi ''))"
    by (simp add: body_with_query_def)
  have w1: "\<forall>c\<in>set [0x0020, 0x0009, 0x00A0, 0x3000]. is_white_space c"
    by (simp add: is_white_space_def)
  have w2: "\<not> (\<forall>c\<in>set (lit '' hi ''). is_white_space c)"
    by (simp add: lit_def is_white_space_def)
  have f2: "\<not> falsy (JStr (lit '' hi ''))" by (simp add: lit_def)
  from query_validation[OF q0, of "demo_query_env [] [] []"]
    query_validation[OF q1, of "demo_query_env [] [] []"] w1
    query_validation[OF q2, of "demo_query_env [] [] []"] w2 f2 q0 q1 q2
  show ?thesis by simp
qed

text \<open>
  The claim as stated fails for a request without a body: \<open>req.body\<close> is \<open>undefined\<close>, the
  query is absent, and the destructuring throws before the test.  \<open>/chat\<close> answers 500 and
  \<open>/chat/stream\<close> writes an error event; neither answers 400.
\<close>

theorem no_body_not_rejected:
  "query_of_body JUndefined = Inl (cannot_destructure ''undefined'')
   \<and> chat (demo_query_env [] [] []) JUndefined
       = (Json 500
            (JObj [(lit ''error'', JStr (lit ''Failed to process chat request'')),
                   (lit ''details'', JStr (message (cannot_destructure ''undefined'')))]),
          [])
   \<and> chat_stream (demo_query_env [] [] []) JUndefined
       = (EventStream False
            [JObj [(lit ''error'', JStr (message (cannot_destructure ''undefined'')))]],
          [])
   \<and> fst (chat (demo_query_env [] [] []) JUndefined) \<noteq> query_required
   \<and> fst (chat_stream (demo_query_env [] [] []) JUndefined) \<noteq> query_required"
  by (simp add: chat_def chat_stream_def chat_failed_def error_event_def query_required_def)

text \<open>
  A query that is neither falsy nor a string has no \<open>trim\<close>: the test throws, and the
  request is answered as a failure, not as a rejection.
\<close>

lemma number_query_fails:
  "chat (demo_query_env [] [] []) (body_with_query (JNum 5))
     = (chat_failed (TypeError (lit ''query.trim is not a function'')), [])
   \<and> chat_stream (demo_query_env [] [] []) (body_with_query (JNum 5))
     = (EventStream False [error_event (TypeError (lit ''query.trim is not a function''))], [])"
  by (simp add: chat_def chat_stream_def body_with_query_def)

subsection \<open>The ingestion job\<close>

lemma points_from_ids:
  "map point_id (points_from i embs chunks path) = [Suc i..<Suc i + length embs]"
proof (induction embs arbitrary: i)
  case Nil
  then show ?case by simp
next
  case (Cons vec vecs)
  then show ?case by (simp add: upt_rec)
qed

lemma length_points_from: "length (points_from i embs chunks path) = length embs"
  by (induction embs arbitrary: i) auto

lemma points_from_nth:
  "k < length embs \<Longrightarrow>
   points_from i embs chunks path ! k =
     \<lparr>point_id = i + k + 1, point_vector = embs ! k,
      point_payload =
        JObj [(lit ''text'', chunk_at chunks (i + k)),
              (lit ''chunk_index'', JNum (of_nat (i + k))),
              (lit ''source'', path)]\<rparr>"
proof (induction embs arbitrary: i k)
  case Nil
  then show ?case by simp
next
  case (Cons vec vecs)
  show ?case
  proof (cases k)
    case 0
    then show ?thesis by simp
  next
    case (Suc j)
    with Cons.prems have "j < length vecs" by simp
    from Cons.IH[OF this, of "Suc i"] Suc show ?thesis by simp
  qed
qed

lemma ensureCollection_no_upsert:
  "ensureCollection env embs q = (r, q', tr) \<Longrightarrow> filter is_upsert tr = []"
  by (auto simp: ensureCollection_def split: option.splits list.splits prod.splits)

lemma embeddingModel_no_upsert:
  "embeddingModel ns provider docs = (r, tr) \<Longrightarrow> filter is_upsert tr = []"
  by (auto simp: embeddingModel_def split: jsval.splits sum.splits if_splits)

lemma no_upsert_member: "filter is_upsert tr = [] \<Longrightarrow> Upsert name w ps \<notin> set tr"
  by (auto simp: filter_empty_conv)

lemma worker_upsert:
  assumes "worker env data q = (r, q', tr)" and "Upsert name w ps \<in> set tr"
  shows "\<exists>path text chunks embs tr0.
           get_prop data ''path'' = Inr path \<and> readPdfText env path = Inr text
         \<and> splitText env text = Inr chunks
         \<and> embeddingModel (numberToString env) (embedContent env) (JArr (map JStr chunks))
             = (Inr embs, tr0)
         \<and> name = collectionName \<and> w \<and> ps = points embs chunks path
         \<and> filter is_upsert tr = [Upsert name w ps] \<and> last tr = Upsert name w ps"
proof (cases "get_prop data ''path''")
  case (Inl e)
  with assms show ?thesis by (simp add: worker_def)
next
  case path: (Inr path)
  show ?thesis
  proof (cases "readPdfText env path")
    case (Inl m)
    with assms path show ?thesis by (auto simp: worker_def)
  next
    case tx: (Inr pdfText)
    show ?thesis
    proof (cases "splitText env pdfText")
      case (Inl m)
      with assms path tx show ?thesis by (auto simp: worker_def)
    next
      case chunks: (Inr chunks)
      obtain er tr0 where em:
        "embeddingModel (numberToString env) (embedContent env) (JArr (map JStr chunks)) = (er, tr0)"
        by (cases "embeddingModel (numberToString env) (embedContent env) (JArr (map JStr chunks))")
      note n0 = embeddingModel_no_upsert[OF em]
      show ?thesis
      proof (cases er)
        case (Inl e)
        with assms path tx chunks em no_upsert_member[OF n0] show ?thesis
          by (auto simp: worker_def)
      next
        case embs: (Inr embs)
        obtain cr q1 tr1 where en: "ensureCollection env embs q = (cr, q1, tr1)"
          by (cases "ensureCollection env embs q") auto
        note n1 = ensureCollection_no_upsert[OF en]
        show ?thesis
        proof (cases cr)
          case (Some e)
          with assms path tx chunks em embs en no_upsert_member[OF n0] no_upsert_member[OF n1]
          show ?thesis by (auto simp: worker_def)
        next
          case None
          obtain ur q2 where up:
            "upsert env collectionName True (points embs chunks path) q1 = (ur, q2)"
            by (cases "upsert env collectionName True (points embs chunks path) q1")
          from assms(1) path tx chunks em embs en None up
          have tr: "tr = [ReadPdf path, SplitText pdfText] @ tr0 @ tr1
                      @ [Upsert collectionName True (points embs chunks path)]"
            by (cases ur) (auto simp: worker_def)
          with assms(2) no_upsert_member[OF n0] no_upsert_member[OF n1]
          have eq: "Upsert name w ps = Upsert collectionName True (points embs chunks path)"
            by auto
          from tr n0 n1 have "filter is_upsert tr
              = [Upsert collectionName True (points embs chunks path)]" by simp
          moreover from tr have "last tr = Upsert collectionName True (points embs chunks path)"
            by simp
          ultimately show ?thesis using eq path tx chunks em embs by auto
        qed
      qed
    qed
  qed
qed

lemma worker_embedding_failed:
  assumes "get_prop data ''path'' = Inr path" and "readPdfText env path = Inr text"
    and "splitText env text = Inr chunks"
    and "fst (embeddingModel (numberToString env) (embedContent env) (JArr (map JStr chunks)))
           = Inl e"
  shows "worker env data q = (Inl e, q, [ReadPdf path, SplitText text, EmbedContent chunks])"
proof -
  obtain er tr0 where em:
    "embeddingModel (numberToString env) (embedContent env) (JArr (map JStr chunks)) = (er, tr0)"
    by (cases "embeddingModel (numberToString env) (embedContent env) (JArr (map JStr chunks))")
  from em have "tr0 = [EmbedContent chunks]"
    using embeddingModel_snd[of "numberToString env" "embedContent env" chunks] by simp
  with assms em show ?thesis by (simp add: worker_def)
qed

lemma demo_run:
  "worker (mem_env demo_read demo_split demo_embed) (demo_job ''a.pdf'') []
      = (Inr (JObj [(lit ''success'', JBool True), (lit ''chunks'', JNum 1)]),
         [(collectionName,
           \<lparr>vector_size = 2, distance = lit ''Cosine'',
            stored = [(1, hd (points [[1, 0]] [lit ''alpha''] (JStr (lit ''a.pdf''))))]\<rparr>)],
         [ReadPdf (JStr (lit ''a.pdf'')), SplitText (lit ''alpha''), EmbedContent [lit ''alpha''],
          GetCollection collectionName, CreateCollection collectionName 2 (lit ''Cosine''),
          Upsert collectionName True (points [[1, 0]] [lit ''alpha''] (JStr (lit ''a.pdf'')))])"
  by (simp add: worker_def demo_job_def mem_env_def demo_read_def demo_split_def
      demo_embed_def embeddingModel_def ensureCollection_def mem_getCollection_def
      mem_createCollection_def mem_upsert_def points_def lit_def)

text \<open>
  Claim C7.  When the embedding step of a job throws, the job fails with that error, the
  index is in the state it was in and no call to the index has been made: the calls are
  the read of the file, the split and the embedding request.  And whenever a job calls
  \<open>upsert\<close>, the file was read and split, \<open>embeddingModel\<close> had returned the embeddings
  \<open>embs\<close> for the chunks, the call is the only \<open>upsert\<close> of the job and its last call, it
  has \<open>wait: true\<close>, and it carries one point for each embedding.
\<close>

theorem upsert_only_after_embeddings:
  "(get_prop data ''path'' = Inr path \<and> readPdfText env path = Inr text
      \<and> splitText env text = Inr chunks
      \<and> fst (embeddingModel (numberToString env) (embedContent env) (JArr (map JStr chunks)))
          = Inl e
    \<longrightarrow> worker env data q = (Inl e, q, [ReadPdf path, SplitText text, EmbedContent chunks]))
   \<and> (worker env data q = (r, q', tr) \<and> Upsert name w ps \<in> set tr
    \<longrightarrow> (\<exists>path text chunks embs tr0.
           get_prop data ''path'' = Inr path \<and> readPdfText env path = Inr text
         \<and> splitText env text = Inr chunks
         \<and> embeddingModel (numberToString env) (embedContent env) (JArr (map JStr chunks))
             = (Inr embs, tr0)
         \<and> name = collectionName \<and> w \<and> ps = points embs chunks path
         \<and> length ps = length embs
         \<and> filter is_upsert tr = [Upsert name w ps] \<and> last tr = Upsert name w ps))"
proof (intro conjI impI)
  assume "get_prop data ''path'' = Inr path \<and> readPdfText env path = Inr text
      \<and> splitText env text = Inr chunks
      \<and> fst (embeddingModel (numberToString env) (embedContent env) (JArr (map JStr chunks)))
          = Inl e"
  then show "worker env data q = (Inl e, q, [ReadPdf path, SplitText text, EmbedContent chunks])"
    using worker_embedding_failed[of data path env "text" chunks e q] by simp
next
  assume a: "worker env data q = (r, q', tr) \<and> Upsert name w ps \<in> set tr"
  from worker_upsert[of env data q r q' tr name w ps] a
  obtain path pdfText chunks embs tr0 where
    h: "get_prop data ''path'' = Inr path" "readPdfText env path = Inr pdfText"
       "splitText env pdfText = Inr chunks"
       "embeddingModel (numberToString env) (embedContent env) (JArr (map JStr chunks))
             = (Inr embs, tr0)"
       "name = collectionName" "w" "ps = points embs chunks path"
       "filter is_upsert tr = [Upsert name w ps]" "last tr = Upsert name w ps"
    by blast
  from h(7) have "length ps = length embs" by (simp add: points_def length_points_from)
  with h show "\<exists>path text chunks embs tr0.
           get_prop data ''path'' = Inr path \<and> readPdfText env path = Inr text
         \<and> splitText env text = Inr chunks
         \<and> embeddingModel (numberToString env) (embedContent env) (JArr (map JStr chunks))
             = (Inr embs, tr0)
         \<and> name = collectionName \<and> w \<and> ps = points embs chunks path
         \<and> length ps = length embs
         \<and> filter is_upsert tr = [Upsert name w ps] \<and> last tr = Upsert name w ps"
    by blast
qed

theorem upsert_only_after_embeddings_witness:
  "get_prop (demo_job ''a.pdf'') ''path'' = Inr (JStr (lit ''a.pdf''))
   \<and> readPdfText (mem_env demo_read demo_split failing_embed) (JStr (lit ''a.pdf''))
       = Inr (lit ''alpha'')
   \<and> splitText (mem_env demo_read demo_split failing_embed) (lit ''alpha'') = Inr [lit ''alpha'']
   \<and> worker (mem_env demo_read demo_split failing_embed) (demo_job ''a.pdf'') []
       = (Inl (External (lit ''503 Service Unavailable'')), [],
          [ReadPdf (JStr (lit ''a.pdf'')), SplitText (lit ''alpha''),
           EmbedContent [lit ''alpha'']])
   \<and> Upsert collectionName True (points [[1, 0]] [lit ''alpha''] (JStr (lit ''a.pdf'')))
       \<in> set (snd (snd (worker (mem_env demo_read demo_split demo_embed) (demo_job ''a.pdf'') [])))
   \<and> filter is_upsert
         (snd (snd (worker (mem_env demo_read demo_split demo_embed) (demo_job ''a.pdf'') [])))
       = [Upsert collectionName True (points [[1, 0]] [lit ''alpha''] (JStr (lit ''a.pdf'')))]"
  using upsert_only_after_embeddings[of "demo_job ''a.pdf''" "JStr (lit ''a.pdf'')"
      "mem_env demo_read demo_split failing_embed" "lit ''alpha''" "[lit ''alpha'']"
      "External (lit ''503 Service Unavailable'')" "[]"]
    upsert_only_after_embeddings[of "demo_job ''a.pdf''" _
      "mem_env demo_read demo_split demo_embed" _ _ _ "[]" _ _ _ collectionName True
      "points [[1, 0]] [lit ''alpha''] (JStr (lit ''a.pdf''))"]
    demo_run
  by (simp add: demo_job_def mem_env_def demo_read_def demo_split_def failing_embed_def
      embeddingModel_def lit_def)

lemma demo_run3:
  "worker (mem_env demo_read demo_split3 demo_embed) (demo_job ''a.pdf'') []
      = (Inr (JObj [(lit ''success'', JBool True), (lit ''chunks'', JNum 3)]),
         [(collectionName,
           \<lparr>vector_size = 2, distance = lit ''Cosine'',
            stored =
              map (\<lambda>p. (point_id p, p))
                (points [[1, 0], [1, 0], [1, 0]] [lit ''al'', lit ''ph'', lit ''a'']
                   (JStr (lit ''a.pdf'')))\<rparr>)],
         [ReadPdf (JStr (lit ''a.pdf'')), SplitText (lit ''alpha''),
          EmbedContent [lit ''al'', lit ''ph'', lit ''a''],
          GetCollection collectionName, CreateCollection collectionName 2 (lit ''Cosine''),
          Upsert collectionName True
            (points [[1, 0], [1, 0], [1, 0]] [lit ''al'', lit ''ph'', lit ''a'']
               (JStr (lit ''a.pdf'')))])"
  by (simp add: worker_def demo_job_def mem_env_def demo_read_def demo_split3_def
      demo_embed_def embeddingModel_def ensureCollection_def mem_getCollection_def
      mem_createCollection_def mem_upsert_def points_def lit_def)

text \<open>
  Claim C1, as amended.  The points a job upserts have the ids 1, 2, ... in the order of
  the embeddings (\<open>id = i + 1\<close>), so within the job no two points share an id.  The point
  with id \<open>i + 1\<close> carries embedding \<open>i\<close>, the index \<open>i\<close>, the document's path and, as its
  text, chunk \<open>i\<close> of the job's document; it has no text when the provider returned more
  embeddings than there are chunks and \<open>i\<close> is past the last chunk.  The same job run
  again, on whatever state of the index, upserts the same points under the same ids.
\<close>

theorem point_ids_job_local:
  assumes "worker env data q = (r, q', tr)" and "Upsert name w ps \<in> set tr"
  shows "map point_id ps = [1..<Suc (length ps)]
       \<and> distinct (map point_id ps)
       \<and> (\<exists>path text chunks embs tr0.
             get_prop data ''path'' = Inr path \<and> readPdfText env path = Inr text
           \<and> splitText env text = Inr chunks
           \<and> embeddingModel (numberToString env) (embedContent env) (JArr (map JStr chunks))
               = (Inr embs, tr0)
           \<and> length ps = length embs
           \<and> (\<forall>i<length ps.
                 point_id (ps ! i) = i + 1
               \<and> point_vector (ps ! i) = embs ! i
               \<and> point_payload (ps ! i) =
                   JObj [(lit ''text'',
                          if i < length chunks then JStr (chunks ! i) else JUndefined),
                         (lit ''chunk_index'', JNum (of_nat i)),
                         (lit ''source'', path)]))
       \<and> (\<forall>q2 name2 w2 ps2.
             Upsert name2 w2 ps2 \<in> set (snd (snd (worker env data q2))) \<longrightarrow> ps2 = ps)"
proof -
  from worker_upsert[OF assms]
  obtain path pdfText chunks embs tr0 where
    h: "get_prop data ''path'' = Inr path" "readPdfText env path = Inr pdfText"
       "splitText env pdfText = Inr chunks"
       "embeddingModel (numberToString env) (embedContent env) (JArr (map JStr chunks))
             = (Inr embs, tr0)"
       "ps = points embs chunks path"
    by blast
  have len: "length ps = length embs" using h(5) by (simp add: points_def length_points_from)
  have ids: "map point_id ps = [1..<Suc (length ps)]"
    using points_from_ids[of 0 embs chunks path] h(5) len by (simp add: points_def)
  then have dist: "distinct (map point_id ps)" by simp
  have nth: "\<forall>i<length ps.
                 point_id (ps ! i) = i + 1
               \<and> point_vector (ps ! i) = embs ! i
               \<and> point_payload (ps ! i) =
                   JObj [(lit ''text'',
                          if i < length chunks then JStr (chunks ! i) else JUndefined),
                         (lit ''chunk_index'', JNum (of_nat i)),
                         (lit ''source'', path)]"
    using points_from_nth[of _ embs 0 chunks path] h(5) len
    by (simp add: points_def chunk_at_def)
  have again: "ps2 = ps" if "Upsert name2 w2 ps2 \<in> set (snd (snd (worker env data q2)))"
    for q2 name2 w2 ps2
  proof -
    obtain r2 q2' tr2 where w2: "worker env data q2 = (r2, q2', tr2)"
      by (cases "worker env data q2") auto
    with that have "Upsert name2 w2 ps2 \<in> set tr2" by simp
    from worker_upsert[OF w2 this] h show ?thesis by auto
  qed
  from ids dist nth again len h(1-4) show ?thesis by blast
qed

theorem point_ids_job_local_witness:
  "Upsert collectionName True
     (points [[1, 0], [1, 0], [1, 0]] [lit ''al'', lit ''ph'', lit ''a''] (JStr (lit ''a.pdf'')))
     \<in> set (snd (snd (worker (mem_env demo_read demo_split3 demo_embed) (demo_job ''a.pdf'') [])))
   \<and> map point_id
        (points [[1, 0], [1, 0], [1, 0]] [lit ''al'', lit ''ph'', lit ''a'']
           (JStr (lit ''a.pdf'')))
       = [1, 2, 3]
   \<and> distinct
        (map point_id
           (points [[1, 0], [1, 0], [1, 0]] [lit ''al'', lit ''ph'', lit ''a'']
              (JStr (lit ''a.pdf''))))
   \<and> map (\<lambda>p. get_prop (point_payload p) ''text'')
        (points [[1, 0], [1, 0], [1, 0]] [lit ''al'', lit ''ph'', lit ''a'']
           (JStr (lit ''a.pdf'')))
       = [Inr (JStr (lit ''al'')), Inr (JStr (lit ''ph'')), Inr (JStr (lit ''a''))]"
proof -
  have m: "Upsert collectionName True
     (points [[1, 0], [1, 0], [1, 0]] [lit ''al'', lit ''ph'', lit ''a''] (JStr (lit ''a.pdf'')))
     \<in> set [ReadPdf (JStr (lit ''a.pdf'')), SplitText (lit ''alpha''),
          EmbedContent [lit ''al'', lit ''ph'', lit ''a''],
          GetCollection collectionName, CreateCollection collectionName 2 (lit ''Cosine''),
          Upsert collectionName True
            (points [[1, 0], [1, 0], [1, 0]] [lit ''al'', lit ''ph'', lit ''a'']
               (JStr (lit ''a.pdf'')))]"
    by simp
  from point_ids_job_local[OF demo_run3 m]
  have "map point_id
        (points [[1, 0], [1, 0], [1, 0]] [lit ''al'', lit ''ph'', lit ''a'']
           (JStr (lit ''a.pdf'')))
       = [1..<Suc (length (points [[1, 0], [1, 0], [1, 0]] [lit ''al'', lit ''ph'', lit ''a'']
           (JStr (lit ''a.pdf''))))]"
    and "distinct
        (map point_id
           (points [[1, 0], [1, 0], [1, 0]] [lit ''al'', lit ''ph'', lit ''a'']
              (JStr (lit ''a.pdf''))))"
    by blast+
  moreover have "length (points [[1, 0], [1, 0], [1, 0]] [lit ''al'', lit ''ph'', lit ''a'']
           (JStr (lit ''a.pdf''))) = 3"
    by (simp add: points_def)
  moreover have "[1..<Suc 3] = [1, 2, 3]" by (simp add: upt_rec)
  moreover have "map (\<lambda>p. get_prop (point_payload p) ''text'')
        (points [[1, 0], [1, 0], [1, 0]] [lit ''al'', lit ''ph'', lit ''a'']
           (JStr (lit ''a.pdf'')))
       = [Inr (JStr (lit ''al'')), Inr (JStr (lit ''ph'')), Inr (JStr (lit ''a''))]"
    by (simp add: points_def chunk_at_def lit_def)
  ultimately show ?thesis using demo_run3 by simp
qed

text \<open>
  The job of \<open>a.pdf\<close> delivered again, on the index its first run left: the collection is
  found, the same three points are upserted under the ids 1, 2, 3, and the index is as it
  was.
\<close>

lemma redelivery_overwrites:
  "worker (mem_env demo_read demo_split3 demo_embed) (demo_job ''a.pdf'')
     [(collectionName,
       \<lparr>vector_size = 2, distance = lit ''Cosine'',
        stored =
          map (\<lambda>p. (point_id p, p))
            (points [[1, 0], [1, 0], [1, 0]] [lit ''al'', lit ''ph'', lit ''a'']
               (JStr (lit ''a.pdf'')))\<rparr>)]
   = (Inr (JObj [(lit ''success'', JBool True), (lit ''chunks'', JNum 3)]),
      [(collectionName,
        \<lparr>vector_size = 2, distance = lit ''Cosine'',
         stored =
           map (\<lambda>p. (point_id p, p))
             (points [[1, 0], [1, 0], [1, 0]] [lit ''al'', lit ''ph'', lit ''a'']
                (JStr (lit ''a.pdf'')))\<rparr>)],
      [ReadPdf (JStr (lit ''a.pdf'')), SplitText (lit ''alpha''),
       EmbedContent [lit ''al'', lit ''ph'', lit ''a''],
       GetCollection collectionName,
       Upsert collectionName True
         (points [[1, 0], [1, 0], [1, 0]] [lit ''al'', lit ''ph'', lit ''a'']
            (JStr (lit ''a.pdf'')))])"
  by (simp add: worker_def demo_job_def mem_env_def demo_read_def demo_split3_def
      demo_embed_def embeddingModel_def ensureCollection_def mem_getCollection_def
      mem_upsert_def points_def lit_def)

text \<open>
  When the provider returns two embeddings for a document of one chunk, the second point
  has no text.
\<close>

lemma surplus_embedding_has_no_text:
  "map (\<lambda>p. get_prop (point_payload p) ''text'')
     (points [[1, 0], [0, 1]] [lit ''alpha''] (JStr (lit ''a.pdf'')))
   = [Inr (JStr (lit ''alpha'')), Inr JUndefined]"
  by (simp add: points_def chunk_at_def lit_def)

text \<open>
  The claim as stated fails across documents.  With the reference index, empty at first,
  the job of \<open>a.pdf\<close> stores the chunk \<open>alpha\<close> under id 1; the job of \<open>b.pdf\<close> then
  stores the chunk \<open>beta\<close> under id 1 of the same collection, replacing it.  The last call
  of each job is the \<open>upsert\<close> of its point with id 1.
\<close>

theorem point_id_collision:
  "fst (snd (worker (mem_env demo_read demo_split demo_embed) (demo_job ''a.pdf'') []))
     = [(collectionName,
         \<lparr>vector_size = 2, distance = lit ''Cosine'',
          stored = [(1, \<lparr>point_id = 1, point_vector = [1, 0],
                         point_payload = JObj [(lit ''text'', JStr (lit ''alpha'')),
                                               (lit ''chunk_index'', JNum 0),
                                               (lit ''source'', JStr (lit ''a.pdf''))]\<rparr>)]\<rparr>)]
   \<and> fst (snd (worker (mem_env demo_read demo_split demo_embed) (demo_job ''b.pdf'')
              (fst (snd (worker (mem_env demo_read demo_split demo_embed) (demo_job ''a.pdf'') [])))))
     = [(collectionName,
         \<lparr>vector_size = 2, distance = lit ''Cosine'',
          stored = [(1, \<lparr>point_id = 1, point_vector = [1, 0],
                         point_payload = JObj [(lit ''text'', JStr (lit ''beta'')),
                                               (lit ''chunk_index'', JNum 0),
                                               (lit ''source'', JStr (lit ''b.pdf''))]\<rparr>)]\<rparr>)]
   \<and> last (snd (snd (worker (mem_env demo_read demo_split demo_embed) (demo_job ''a.pdf'') [])))
     = Upsert collectionName True
         [\<lparr>point_id = 1, point_vector = [1, 0],
           point_payload = JObj [(lit ''text'', JStr (lit ''alpha'')),
                                 (lit ''chunk_index'', JNum 0),
                                 (lit ''source'', JStr (lit ''a.pdf''))]\<rparr>]
   \<and> last (snd (snd (worker (mem_env demo_read demo_split demo_embed) (demo_job ''b.pdf'')
              (fst (snd (worker (mem_env demo_read demo_split demo_embed) (demo_job ''a.pdf'') []))))))
     = Upsert collectionName True
         [\<lparr>point_id = 1, point_vector = [1, 0],
           point_payload = JObj [(lit ''text'', JStr (lit ''beta'')),
                                 (lit ''chunk_index'', JNum 0),
                                 (lit ''source'', JStr (lit ''b.pdf''))]\<rparr>]
   \<and> lit ''alpha'' \<noteq> lit ''beta''"
  by (simp add: worker_def demo_job_def mem_env_def demo_read_def demo_split_def
        demo_embed_def embeddingModel_def ensureCollection_def mem_getCollection_def
        mem_createCollection_def mem_upsert_def points_def chunk_at_def lit_def)

subsection \<open>The collection check\<close>

text \<open>
  When \<open>getCollection\<close> succeeds the check is over, nothing is created and nothing is thrown.
  The two steps of the check, run without another job in between, are \<open>ensureCollection\<close>;
  an error it returns fails the job before any \<open>upsert\<close>.
\<close>

lemma ensureCollection_present:
  "getCollection env collectionName q = None \<Longrightarrow>
   ensureCollection env embs q = (None, q, [GetCollection collectionName])"
  by (simp add: ensureCollection_def)

lemma ensure_steps:
  "ensure_step env embs (ensure_step env embs (Checking, q)) =
     (case ensureCollection env embs q of
        (None, q', tr) \<Rightarrow> (Ensured, q')
      | (Some e, q', tr) \<Rightarrow> (Threw e, q'))"
  by (auto simp: ensureCollection_def split: option.splits list.splits prod.splits)

lemma worker_ensure_failed:
  assumes "get_prop data ''path'' = Inr path" and "readPdfText env path = Inr pdfText"
    and "splitText env pdfText = Inr chunks"
    and "embeddingModel (numberToString env) (embedContent env) (JArr (map JStr chunks))
           = (Inr embs, tr0)"
    and "ensureCollection env embs q = (Some e, q1, tr1)"
  shows "worker env data q = (Inl e, q1, [ReadPdf path, SplitText pdfText] @ tr0 @ tr1)"
  using assms by (simp add: worker_def)

lemma mem_ensure_present:
  "map_of ix collectionName = Some c \<Longrightarrow>
   ensureCollection (mem_env rd sp em) embs ix = (None, ix, [GetCollection collectionName])"
  by (simp add: ensureCollection_def mem_env_def mem_getCollection_def)

text \<open>
  Claim C2.  Two jobs start on an index without the collection and run their checks before
  either creates it: first job checks, second job checks, first job creates, second job
  creates.  One collection exists afterwards, the first job goes on, and the second job
  has thrown the index's "already exists" error out of its \<open>catch\<close> block, where nothing
  handles it.
\<close>

theorem collection_race:
  "interleave (mem_env demo_read demo_split demo_embed) [[1, 0]] [[1, 0]]
     [True, False, True, False] (Checking, Checking, [])
   = (Ensured, Threw (External (lit ''Collection already exists'')),
      [(collectionName, \<lparr>vector_size = 2, distance = lit ''Cosine'', stored = []\<rparr>)])"
  by (simp add: mem_env_def mem_getCollection_def mem_createCollection_def)

text \<open>When the first job finishes its check before the second starts, both go on.\<close>

lemma collection_no_race:
  "interleave (mem_env demo_read demo_split demo_embed) [[1, 0]] [[1, 0]]
     [True, True, False, False] (Checking, Checking, [])
   = (Ensured, Ensured,
      [(collectionName, \<lparr>vector_size = 2, distance = lit ''Cosine'', stored = []\<rparr>)])"
  by (simp add: mem_env_def mem_getCollection_def mem_createCollection_def)

subsection \<open>The embedding adapter\<close>

lemma String_throws:
  "(\<exists>e. js_String ns v = Inl e) \<longleftrightarrow> no_string_form v"
  "(\<exists>e. join_elements ns xs = Inl e) \<longleftrightarrow> list_ex no_string_form xs"
  by (induction ns v and ns xs rule: js_String_join_elements.induct)
     (auto split: sum.splits option.splits)

lemma String_TypeError:
  "js_String ns v = Inl e \<Longrightarrow> \<exists>m. e = TypeError m"
  "join_elements ns xs = Inl e \<Longrightarrow> \<exists>m. e = TypeError m"
  by (induction ns v and ns xs arbitrary: e and e rule: js_String_join_elements.induct)
     (auto split: sum.splits option.splits if_splits)

lemma clean_docs_throws:
  "(\<exists>e. clean_docs ns ds = Inl e) \<longleftrightarrow> list_ex no_string_form ds"
proof (induction ds)
  case Nil
  then show ?case by simp
next
  case (Cons d ds)
  show ?case
  proof (cases "js_String ns d")
    case (Inl e)
    with String_throws(1)[of ns d] show ?thesis by auto
  next
    case (Inr s)
    with String_throws(1)[of ns d] have "\<not> no_string_form d" by auto
    with Inr Cons show ?thesis by (auto split: sum.splits)
  qed
qed

lemma clean_docs_TypeError: "clean_docs ns ds = Inl e \<Longrightarrow> \<exists>m. e = TypeError m"
  by (induction ds arbitrary: e) (auto split: sum.splits dest: String_TypeError(1))

lemma clean_docs_nth:
  "clean_docs ns ds = Inr strs \<Longrightarrow>
   length strs = length ds \<and> (\<forall>i<length ds. js_String ns (ds ! i) = Inr (strs ! i))"
proof (induction ds arbitrary: strs)
  case Nil
  then show ?case by simp
next
  case (Cons d ds)
  from Cons.prems obtain s ss where s: "js_String ns d = Inr s"
    and ss: "clean_docs ns ds = Inr ss" and strs: "strs = s # ss"
    by (auto split: sum.splits)
  from Cons.IH[OF ss] have len: "length ss = length ds"
    and nth: "\<And>i. i < length ds \<Longrightarrow> js_String ns (ds ! i) = Inr (ss ! i)" by auto
  show ?case
  proof (intro conjI allI impI)
    show "length strs = length (d # ds)" using strs len by simp
  next
    fix i assume "i < length (d # ds)"
    then show "js_String ns ((d # ds) ! i) = Inr (strs ! i)"
      using s strs nth by (cases i) auto
  qed
qed

text \<open>
  Claim C10, as amended.  \<open>embeddingModel\<close> throws \<open>Error("docs must be an array of
  strings")\<close> exactly when \<open>docs\<close> is not an array.  For an array it converts every element
  by \<open>String\<close> before anything is sent.  When an element has no string form (an object
  with a \<open>toString\<close> member of its own, directly or inside arrays), the adapter throws a
  \<open>TypeError\<close> and the provider is not called.  Otherwise it makes one provider call,
  whose contents are the converted elements in order (a string as it is), and what it
  returns or throws is decided by the provider's answer alone: the provider's error, a
  \<open>TypeError\<close> when the provider returned no embedding, the embeddings otherwise.
\<close>

theorem embedding_adapter:
  "(fst (embeddingModel ns provider docs) = Inl (Error (lit ''docs must be an array of strings''))
      \<longleftrightarrow> (\<forall>ds. docs \<noteq> JArr ds))
   \<and> (list_ex no_string_form ds
        \<longrightarrow> (\<exists>m. embeddingModel ns provider (JArr ds) = (Inl (TypeError m), [])))
   \<and> (\<not> list_ex no_string_form ds
        \<longrightarrow> (\<exists>strs. length strs = length ds
              \<and> (\<forall>i<length ds. js_String ns (ds ! i) = Inr (strs ! i)
                     \<and> (\<forall>s. ds ! i = JStr s \<longrightarrow> strs ! i = s))
              \<and> embeddingModel ns provider (JArr ds) =
                  (case provider strs of
                     Inl m \<Rightarrow> Inl (External m)
                   | Inr [] \<Rightarrow> Inl (cannot_read ''undefined'' ''length'')
                   | Inr (vec # vecs) \<Rightarrow> Inr (vec # vecs),
                   [EmbedContent strs])))"
proof (intro conjI impI)
  show "fst (embeddingModel ns provider docs) = Inl (Error (lit ''docs must be an array of strings''))
      \<longleftrightarrow> (\<forall>ds. docs \<noteq> JArr ds)"
  proof (cases docs)
    case (JArr xs)
    show ?thesis
    proof (cases "clean_docs ns xs")
      case (Inl e)
      with clean_docs_TypeError[OF Inl] JArr show ?thesis
        by (auto simp: embeddingModel_def)
    next
      case (Inr strs)
      with JArr show ?thesis
        by (auto simp: embeddingModel_def cannot_read_def split: sum.splits)
    qed
  qed (auto simp: embeddingModel_def)
next
  assume "list_ex no_string_form ds"
  with clean_docs_throws[of ns ds] obtain e where e: "clean_docs ns ds = Inl e" by auto
  from clean_docs_TypeError[OF e] obtain m where "e = TypeError m" ..
  with e show "\<exists>m. embeddingModel ns provider (JArr ds) = (Inl (TypeError m), [])"
    by (simp add: embeddingModel_def)
next
  assume "\<not> list_ex no_string_form ds"
  with clean_docs_throws[of ns ds] obtain strs where strs: "clean_docs ns ds = Inr strs"
    by (cases "clean_docs ns ds") auto
  from clean_docs_nth[OF strs] have len: "length strs = length ds"
    and nth: "\<forall>i<length ds. js_String ns (ds ! i) = Inr (strs ! i)" by auto
  from nth have str: "\<forall>i<length ds. js_String ns (ds ! i) = Inr (strs ! i)
                     \<and> (\<forall>s. ds ! i = JStr s \<longrightarrow> strs ! i = s)"
    by auto
  have "embeddingModel ns provider (JArr ds) =
                  (case provider strs of
                     Inl m \<Rightarrow> Inl (External m)
                   | Inr [] \<Rightarrow> Inl (cannot_read ''undefined'' ''length'')
                   | Inr (vec # vecs) \<Rightarrow> Inr (vec # vecs),
                   [EmbedContent strs])"
    using strs by (auto simp: embeddingModel_def split: sum.splits list.splits)
  with len str show "\<exists>strs. length strs = length ds
              \<and> (\<forall>i<length ds. js_String ns (ds ! i) = Inr (strs ! i)
                     \<and> (\<forall>s. ds ! i = JStr s \<longrightarrow> strs ! i = s))
              \<and> embeddingModel ns provider (JArr ds) =
                  (case provider strs of
                     Inl m \<Rightarrow> Inl (External m)
                   | Inr [] \<Rightarrow> Inl (cannot_read ''undefined'' ''length'')
                   | Inr (vec # vecs) \<Rightarrow> Inr (vec # vecs),
                   [EmbedContent strs])"
    by blast
qed

lemma demo_docs_strings:
  "clean_docs ns demo_docs =
     Inr [lit ''a'', lit ''null'', lit ''true'', lit ''b,,c,false'', lit ''[object Object]'']"
  by (simp add: demo_docs_def lit_def)

theorem embedding_adapter_witness:
  "\<not> list_ex no_string_form demo_docs
   \<and> embeddingModel (\<lambda>r. []) demo_embed (JArr demo_docs) =
       (Inr [[1, 0], [1, 0], [1, 0], [1, 0], [1, 0]],
        [EmbedContent
           [lit ''a'', lit ''null'', lit ''true'', lit ''b,,c,false'', lit ''[object Object]'']])
   \<and> list_ex no_string_form [JStr (lit ''a''), JArr [JObj [(lit ''toString'', JNull)]]]
   \<and> fst (embeddingModel (\<lambda>r. []) demo_embed (JStr (lit ''a'')))
       = Inl (Error (lit ''docs must be an array of strings''))"
proof -
  have a: "\<not> list_ex no_string_form demo_docs"
    by (simp add: demo_docs_def lit_def)
  have b: "list_ex no_string_form [JStr (lit ''a''), JArr [JObj [(lit ''toString'', JNull)]]]"
    by simp
  from embedding_adapter[of "\<lambda>r. []" demo_embed "JStr (lit ''a'')" demo_docs] a
  obtain strs where n: "\<forall>i<length demo_docs. js_String (\<lambda>r. []) (demo_docs ! i) = Inr (strs ! i)"
    and l: "length strs = length demo_docs"
    and e: "embeddingModel (\<lambda>r. []) demo_embed (JArr demo_docs) =
              (case demo_embed strs of
                 Inl m \<Rightarrow> Inl (External m)
               | Inr [] \<Rightarrow> Inl (cannot_read ''undefined'' ''length'')
               | Inr (vec # vecs) \<Rightarrow> Inr (vec # vecs),
               [EmbedContent strs])"
    and v: "fst (embeddingModel (\<lambda>r. []) demo_embed (JStr (lit ''a'')))
       = Inl (Error (lit ''docs must be an array of strings''))"
    by auto
  from clean_docs_nth[OF demo_docs_strings[of "\<lambda>r. []"]] n l
  have "strs = [lit ''a'', lit ''null'', lit ''true'', lit ''b,,c,false'', lit ''[object Object]'']"
    by (intro nth_equalityI) auto
  with e a b v show ?thesis by (simp add: demo_embed_def)
qed

text \<open>
  The claim as stated fails: an element can by itself make the adapter fail.  The object
  \<open>{ "toString": 1 }\<close> has no string form; with it the adapter throws before the provider
  is called, where the same provider answers for the object \<open>{}\<close>.
\<close>

theorem unconvertible_doc_fails:
  "embeddingModel (\<lambda>r. []) demo_embed (JArr [JObj [(lit ''toString'', JNum 1)]])
     = (Inl (TypeError (lit ''Cannot convert object to primitive value'')), [])
   \<and> embeddingModel (\<lambda>r. []) demo_embed (JArr [JObj []])
     = (Inr [[1, 0]], [EmbedContent [lit ''[object Object]'']])"
  by (simp add: embeddingModel_def demo_embed_def)

lemma embeddingModel_not_array:
  "(\<forall>ds. docs \<noteq> JArr ds) \<Longrightarrow> snd (embeddingModel ns provider docs) = []"
  by (cases docs) (auto simp: embeddingModel_def)

subsection \<open>The query path\<close>

text \<open>
  The two handlers once the query is a string with a character that is not white space,
  the provider has returned an embedding for it and the search has returned.
\<close>

lemma validate_query_Some:
  "\<not> (\<forall>c\<in>set s. is_white_space c) \<Longrightarrow> validate_query (JStr s) = Inr (Some s)"
  by (auto simp: js_trim_empty)

lemma embeddingModel_query:
  "provider [s] = Inr (vec # vecs) \<Longrightarrow>
   embeddingModel ns provider (JArr [JStr s]) = (Inr (vec # vecs), [EmbedContent [s]])"
  by (simp add: embeddingModel_def)

lemma chat_searched:
  assumes "query_of_body body = Inr (JStr s)" and "\<not> (\<forall>c\<in>set s. is_white_space c)"
    and "q_embedContent env [s] = Inr (vec # vecs)"
    and "search env collectionName (Some vec) 5 True = Inr results"
  shows "chat env body =
     (case results of
        [] \<Rightarrow>
          (Json 200 (JObj [(lit ''answer'', JStr no_information), (lit ''sources'', JArr [])]),
           [EmbedContent [s], Search collectionName (Some vec) 5 True])
      | result # others \<Rightarrow>
     (case context_of (q_numberToString env) results of
        Inl e \<Rightarrow> (chat_failed e, [EmbedContent [s], Search collectionName (Some vec) 5 True])
      | Inr ctx \<Rightarrow>
     (case createCompletion env (chat_request (chat_systemPrompt ctx) s) of
        Inl m \<Rightarrow>
          (chat_failed (External m),
           [EmbedContent [s], Search collectionName (Some vec) 5 True,
            CreateChat (chat_request (chat_systemPrompt ctx) s)])
      | Inr choices \<Rightarrow>
     (case sources_from 0 results of
        Inl e \<Rightarrow>
          (chat_failed e,
           [EmbedContent [s], Search collectionName (Some vec) 5 True,
            CreateChat (chat_request (chat_systemPrompt ctx) s)])
      | Inr entries \<Rightarrow>
          (Json 200 (JObj [(lit ''answer'', JStr (answer_of choices)),
                           (lit ''sources'', JArr entries)]),
           [EmbedContent [s], Search collectionName (Some vec) 5 True,
            CreateChat (chat_request (chat_systemPrompt ctx) s)])))))"
  using assms validate_query_Some[OF assms(2)] embeddingModel_query[of "q_embedContent env" s vec vecs "q_numberToString env"]
  by (simp add: chat_def split: list.splits sum.splits)

lemma chat_stream_searched:
  assumes "query_of_body body = Inr (JStr s)" and "\<not> (\<forall>c\<in>set s. is_white_space c)"
    and "q_embedContent env [s] = Inr (vec # vecs)"
    and "search env collectionName (Some vec) 5 True = Inr results"
  shows "chat_stream env body =
     (case results of
        [] \<Rightarrow>
          (EventStream True [no_context_event],
           [EmbedContent [s], Search collectionName (Some vec) 5 True])
      | result # others \<Rightarrow>
     (case context_of (q_numberToString env) results of
        Inl e \<Rightarrow>
          (EventStream True [error_event e],
           [EmbedContent [s], Search collectionName (Some vec) 5 True])
      | Inr ctx \<Rightarrow>
     (case createStream env (stream_request (stream_systemPrompt ctx) s) of
        Inl m \<Rightarrow>
          (EventStream True [error_event (External m)],
           [EmbedContent [s], Search collectionName (Some vec) 5 True,
            CreateChat (stream_request (stream_systemPrompt ctx) s)])
      | Inr (chunks, None) \<Rightarrow>
          (EventStream True (content_events chunks @ [done_event]),
           [EmbedContent [s], Search collectionName (Some vec) 5 True,
            CreateChat (stream_request (stream_systemPrompt ctx) s)])
      | Inr (chunks, Some m) \<Rightarrow>
          (EventStream True (content_events chunks @ [error_event (External m)]),
           [EmbedContent [s], Search collectionName (Some vec) 5 True,
            CreateChat (stream_request (stream_systemPrompt ctx) s)]))))"
  using assms validate_query_Some[OF assms(2)] embeddingModel_query[of "q_embedContent env" s vec vecs "q_numberToString env"]
  by (simp add: chat_stream_def split: list.splits sum.splits prod.splits option.splits)

text \<open>
  Claim C3, as amended.  When the search returns no result, \<open>/chat\<close> answers with status
  200, the fixed text \<open>no_information\<close> as \<open>answer\<close> and the empty list as \<open>sources\<close>;
  \<open>/chat/stream\<close> writes the single event \<open>{ done: true, answer: "No relevant context
  found." }\<close>, which has no \<open>sources\<close>, and ends.  Each has called the embedding provider and
  the search and nothing else: the generation provider is not called.
\<close>

theorem no_results_answer:
  assumes "query_of_body body = Inr (JStr s)" and "\<not> (\<forall>c\<in>set s. is_white_space c)"
    and "q_embedContent env [s] = Inr (vec # vecs)"
    and "search env collectionName (Some vec) 5 True = Inr []"
  shows "chat env body =
           (Json 200 (JObj [(lit ''answer'', JStr no_information), (lit ''sources'', JArr [])]),
            [EmbedContent [s], Search collectionName (Some vec) 5 True])
       \<and> chat_stream env body =
           (EventStream True
              [JObj [(lit ''done'', JBool True),
                     (lit ''answer'', JStr (lit ''No relevant context found.''))]],
            [EmbedContent [s], Search collectionName (Some vec) 5 True])"
  using chat_searched[OF assms] chat_stream_searched[OF assms]
  by (simp add: no_context_event_def)

theorem no_results_answer_witness:
  "query_of_body (body_with_query (JStr (lit ''hi''))) = Inr (JStr (lit ''hi''))
   \<and> q_embedContent (demo_query_env [] [] []) [lit ''hi''] = Inr [[1, 0]]
   \<and> search (demo_query_env [] [] []) collectionName (Some [1, 0]) 5 True = Inr []
   \<and> chat (demo_query_env [] [] []) (body_with_query (JStr (lit ''hi''))) =
           (Json 200 (JObj [(lit ''answer'', JStr no_information), (lit ''sources'', JArr [])]),
            [EmbedContent [lit ''hi''], Search collectionName (Some [1, 0]) 5 True])
   \<and> chat_stream (demo_query_env [] [] []) (body_with_query (JStr (lit ''hi''))) =
           (EventStream True
              [JObj [(lit ''done'', JBool True),
                     (lit ''answer'', JStr (lit ''No relevant context found.''))]],
            [EmbedContent [lit ''hi''], Search collectionName (Some [1, 0]) 5 True])"
  using no_results_answer[of "body_with_query (JStr (lit ''hi''))" "lit ''hi''"
      "demo_query_env [] [] []" "[1, 0]" "[]"]
  by (simp add: body_with_query_def demo_query_env_def demo_embed_def
      lit_def is_white_space_def)

text \<open>
  The claim as stated fails for the streaming endpoint: its event for an empty search has
  no \<open>sources\<close> member, where the response of \<open>/chat\<close> has the empty list.
\<close>

theorem stream_no_results_has_no_sources:
  "fst (chat_stream (demo_query_env [] [] []) (body_with_query (JStr (lit ''hi''))))
     = EventStream True
         [JObj [(lit ''done'', JBool True),
                (lit ''answer'', JStr (lit ''No relevant context found.''))]]
   \<and> get_prop (JObj [(lit ''done'', JBool True),
                     (lit ''answer'', JStr (lit ''No relevant context found.''))]) ''sources''
       = Inr JUndefined
   \<and> fst (chat (demo_query_env [] [] []) (body_with_query (JStr (lit ''hi''))))
     = Json 200 (JObj [(lit ''answer'', JStr no_information), (lit ''sources'', JArr [])])"
  by (simp add: chat_stream_def chat_def body_with_query_def
      demo_query_env_def demo_embed_def embeddingModel_def no_context_event_def js_trim_def
      lit_def is_white_space_def)

subsection \<open>The grounding context\<close>

lemma digit_unat: "d < 10 \<Longrightarrow> unat (0x0030 + of_nat d - (0x0030 :: 16 word)) = d"
proof -
  assume d: "d < 10"
  have "0x0030 + of_nat d - (0x0030 :: 16 word) = of_nat d" by simp
  moreover have "unat (of_nat d :: 16 word) = d"
    using d by (simp add: unat_of_nat take_bit_nat_eq_self)
  ultimately show ?thesis by simp
qed

lemma show_nat_read: "read_nat (show_nat n) = n"
proof (induction n rule: show_nat.induct)
  case (1 n)
  show ?case
  proof (cases "n < 10")
    case True
    then have "show_nat n = [0x0030 + of_nat n]" by (subst show_nat.simps) simp
    with True digit_unat[of n] show ?thesis by (simp add: read_nat_def)
  next
    case False
    have d: "unat (0x0030 + of_nat (n mod 10) - (0x0030 :: 16 word)) = n mod 10"
      by (rule digit_unat) simp
    from False 1 have ih: "read_nat (show_nat (n div 10)) = n div 10" by simp
    have "show_nat n = show_nat (n div 10) @ [0x0030 + of_nat (n mod 10)]"
      using False by (subst show_nat.simps) simp
    then have "read_nat (show_nat n) = 10 * read_nat (show_nat (n div 10)) + n mod 10"
      using d by (simp add: read_nat_def)
    with ih show ?thesis by simp
  qed
qed

lemma js_join_concat: "js_join sep (x # xs) = x @ concat (map ((@) sep) xs)"
  by (induction sep "x # xs" arbitrary: x xs rule: js_join.induct) auto

lemma chunk_labels_nth:
  "chunk_labels ns idx results = Inr ls \<Longrightarrow>
   length ls = length results
   \<and> (\<forall>i<length results. \<exists>t str.
         get_prop (result_payload (results ! i)) ''text'' = Inr t
       \<and> js_String ns t = Inr str
       \<and> ls ! i = lit ''[Chunk '' @ show_nat (idx + i + 1) @ lit ''] '' @ str)"
proof (induction results arbitrary: idx ls)
  case Nil
  then show ?case by simp
next
  case (Cons result results)
  from Cons.prems obtain t str ls' where
    t: "get_prop (result_payload result) ''text'' = Inr t"
    and s: "js_String ns t = Inr str"
    and r: "chunk_labels ns (Suc idx) results = Inr ls'"
    and l: "ls = (lit ''[Chunk '' @ show_nat (idx + 1) @ lit ''] '' @ str) # ls'"
    by (auto split: sum.splits)
  from Cons.IH[OF r] have len: "length ls' = length results"
    and nth: "\<And>i. i < length results \<Longrightarrow> \<exists>t str.
         get_prop (result_payload (results ! i)) ''text'' = Inr t
       \<and> js_String ns t = Inr str
       \<and> ls' ! i = lit ''[Chunk '' @ show_nat (Suc idx + i + 1) @ lit ''] '' @ str"
    by auto
  show ?case
  proof (intro conjI allI impI)
    show "length ls = length (result # results)" using l len by simp
  next
    fix i assume i: "i < length (result # results)"
    show "\<exists>t str. get_prop (result_payload ((result # results) ! i)) ''text'' = Inr t
       \<and> js_String ns t = Inr str
       \<and> ls ! i = lit ''[Chunk '' @ show_nat (idx + i + 1) @ lit ''] '' @ str"
    proof (cases i)
      case 0
      with t s l show ?thesis by simp
    next
      case (Suc j)
      with i have "j < length results" by simp
      from nth[OF this] Suc l show ?thesis by simp
    qed
  qed
qed

lemma chunk_labels_total:
  "(\<forall>r\<in>set results. \<exists>t str.
       get_prop (result_payload r) ''text'' = Inr t \<and> js_String ns t = Inr str) \<Longrightarrow>
   \<exists>ls. chunk_labels ns idx results = Inr ls"
proof (induction results arbitrary: idx)
  case Nil
  then show ?case by simp
next
  case (Cons result results)
  then obtain ls where "chunk_labels ns (Suc idx) results = Inr ls" by fastforce
  moreover from Cons.prems obtain t str where
    "get_prop (result_payload result) ''text'' = Inr t" "js_String ns t = Inr str"
    by auto
  ultimately show ?case by simp
qed

text \<open>
  Claim C6.  For a search that returned results, each with a payload whose text has a
  string form (a string, as the worker stores it, or any value but an object with its own
  \<open>toString\<close>), the context is made of one block per result in the order the search
  returned them: block \<open>i\<close> (from 0) is \<open>[Chunk i+1]\<close>, a space and the text of result
  \<open>i\<close> converted to a string, and the label's digits read back as \<open>i + 1\<close>.  The context
  is the first block followed by every further block, each after a blank line.  The third
  call of either endpoint is the generation request whose system message is the fixed
  preamble followed by that context (and, in \<open>/chat\<close>, the fixed reminder) and whose user
  message is the query.
\<close>

theorem grounding_context:
  assumes "query_of_body body = Inr (JStr s)" and "\<not> (\<forall>c\<in>set s. is_white_space c)"
    and "q_embedContent env [s] = Inr (vec # vecs)"
    and "search env collectionName (Some vec) 5 True = Inr results" and "results \<noteq> []"
    and "\<forall>r\<in>set results. \<exists>t str.
           get_prop (result_payload r) ''text'' = Inr t
         \<and> js_String (q_numberToString env) t = Inr str"
  shows "\<exists>ls ctx. length ls = length results
     \<and> (\<forall>i<length results. \<exists>t str.
           get_prop (result_payload (results ! i)) ''text'' = Inr t
         \<and> js_String (q_numberToString env) t = Inr str
         \<and> ls ! i = lit ''[Chunk '' @ show_nat (i + 1) @ lit ''] '' @ str
         \<and> read_nat (show_nat (i + 1)) = i + 1)
     \<and> ctx = hd ls @ concat (map (\<lambda>l. NL @ NL @ l) (tl ls))
     \<and> context_of (q_numberToString env) results = Inr ctx
     \<and> take 3 (snd (chat env body)) =
         [EmbedContent [s], Search collectionName (Some vec) 5 True,
          CreateChat (chat_request (chat_preamble @ ctx @ chat_reminder) s)]
     \<and> take 3 (snd (chat_stream env body)) =
         [EmbedContent [s], Search collectionName (Some vec) 5 True,
          CreateChat (stream_request (stream_preamble @ ctx) s)]
     \<and> messages (chat_request (chat_preamble @ ctx @ chat_reminder) s) =
         [(lit ''system'', chat_preamble @ ctx @ chat_reminder), (lit ''user'', s)]
     \<and> messages (stream_request (stream_preamble @ ctx) s) =
         [(lit ''system'', stream_preamble @ ctx), (lit ''user'', s)]"
proof -
  from chunk_labels_total[OF assms(6)] obtain ls where
    ls: "chunk_labels (q_numberToString env) 0 results = Inr ls" by blast
  define ctx where "ctx = hd ls @ concat (map (\<lambda>l. NL @ NL @ l) (tl ls))"
  from chunk_labels_nth[OF ls] have len: "length ls = length results"
    and nth: "\<forall>i<length results. \<exists>t str.
           get_prop (result_payload (results ! i)) ''text'' = Inr t
         \<and> js_String (q_numberToString env) t = Inr str
         \<and> ls ! i = lit ''[Chunk '' @ show_nat (i + 1) @ lit ''] '' @ str
         \<and> read_nat (show_nat (i + 1)) = i + 1"
    by (auto simp: show_nat_read)
  from assms(5) len obtain l ls' where lc: "ls = l # ls'" by (cases ls) auto
  have "js_join (NL @ NL) ls = ctx"
    unfolding ctx_def lc by (simp add: js_join_concat) (metis append.assoc)
  with ls have ctx: "context_of (q_numberToString env) results = Inr ctx"
    by (simp add: context_of_def)
  from assms(5) obtain result others where rs: "results = result # others"
    by (cases results) auto
  have c: "take 3 (snd (chat env body)) =
         [EmbedContent [s], Search collectionName (Some vec) 5 True,
          CreateChat (chat_request (chat_preamble @ ctx @ chat_reminder) s)]"
    using chat_searched[OF assms(1-4)] ctx rs
    by (simp add: chat_systemPrompt_def split: sum.splits)
  have st: "take 3 (snd (chat_stream env body)) =
         [EmbedContent [s], Search collectionName (Some vec) 5 True,
          CreateChat (stream_request (stream_preamble @ ctx) s)]"
    using chat_stream_searched[OF assms(1-4)] ctx rs
    by (simp add: stream_systemPrompt_def split: sum.splits prod.splits option.splits)
  from len nth ctx c st ctx_def show ?thesis
    by (intro exI[of _ ls] exI[of _ ctx]) (simp add: chat_request_def stream_request_def)
qed

lemma demo_chat:
  "chat (demo_query_env [demo_result] [Some (lit ''ok'')] [[Some (lit ''o'')], [], [Some (lit ''k'')]])
        (body_with_query (JStr (lit ''hi'')))
   = (Json 200
        (JObj [(lit ''answer'', JStr (lit ''ok'')),
               (lit ''sources'',
                JArr [JObj [(lit ''chunk_index'', JNum 1),
                            (lit ''text'', JStr (lit ''alpha...'')),
                            (lit ''score'', JNum (1 / 2)),
                            (lit ''source'', JStr (lit ''a.pdf''))]])]),
      [EmbedContent [lit ''hi''], Search collectionName (Some [1, 0]) 5 True,
       CreateChat (chat_request (chat_preamble @ lit ''[Chunk 1] alpha'' @ chat_reminder)
                     (lit ''hi''))])"
  by (simp add: chat_def body_with_query_def demo_query_env_def
      demo_embed_def embeddingModel_def demo_result_def context_of_def chat_systemPrompt_def
      substring0_def js_trim_def show_nat.simps lit_def is_white_space_def)

lemma demo_chat_stream:
  "chat_stream
        (demo_query_env [demo_result] [Some (lit ''ok'')] [[Some (lit ''o'')], [], [Some (lit ''k'')]])
        (body_with_query (JStr (lit ''hi'')))
   = (EventStream True
        [JObj [(lit ''content'', JStr (lit ''o''))], JObj [(lit ''content'', JStr (lit ''k''))],
         JObj [(lit ''done'', JBool True)]],
      [EmbedContent [lit ''hi''], Search collectionName (Some [1, 0]) 5 True,
       CreateChat (stream_request (stream_preamble @ lit ''[Chunk 1] alpha'') (lit ''hi''))])"
  by (simp add: chat_stream_def body_with_query_def demo_query_env_def
      demo_embed_def embeddingModel_def demo_result_def context_of_def stream_systemPrompt_def
      done_event_def js_trim_def show_nat.simps lit_def is_white_space_def)

lemma demo_context:
  "context_of (\<lambda>r. []) [demo_result, demo_result2, demo_result3] =
     Inr (lit ''[Chunk 1] alpha'' @ NL @ NL @ lit ''[Chunk 2] beta'' @ NL @ NL
          @ lit ''[Chunk 3] undefined'')"
  by (simp add: demo_result_def demo_result2_def demo_result3_def context_of_def
      show_nat.simps NL_def lit_def)

theorem grounding_context_witness:
  "query_of_body (body_with_query (JStr (lit ''hi''))) = Inr (JStr (lit ''hi''))
   \<and> context_of (\<lambda>r. []) [demo_result, demo_result2, demo_result3] =
       Inr (lit ''[Chunk 1] alpha'' @ NL @ NL @ lit ''[Chunk 2] beta'' @ NL @ NL
            @ lit ''[Chunk 3] undefined'')
   \<and> take 3 (snd (chat (demo_query_env [demo_result, demo_result2, demo_result3]
                       [Some (lit ''ok'')] [])
                     (body_with_query (JStr (lit ''hi''))))) =
       [EmbedContent [lit ''hi''], Search collectionName (Some [1, 0]) 5 True,
        CreateChat
          (chat_request
             (chat_preamble
                @ (lit ''[Chunk 1] alpha'' @ NL @ NL @ lit ''[Chunk 2] beta'' @ NL @ NL
                   @ lit ''[Chunk 3] undefined'')
                @ chat_reminder)
             (lit ''hi''))]
   \<and> take 3 (snd (chat_stream (demo_query_env [demo_result, demo_result2, demo_result3]
                       [Some (lit ''ok'')] [])
                     (body_with_query (JStr (lit ''hi''))))) =
       [EmbedContent [lit ''hi''], Search collectionName (Some [1, 0]) 5 True,
        CreateChat
          (stream_request
             (stream_preamble
                @ (lit ''[Chunk 1] alpha'' @ NL @ NL @ lit ''[Chunk 2] beta'' @ NL @ NL
                   @ lit ''[Chunk 3] undefined''))
             (lit ''hi''))]"
proof -
  define E where
    "E = demo_query_env [demo_result, demo_result2, demo_result3] [Some (lit ''ok'')] []"
  have q: "query_of_body (body_with_query (JStr (lit ''hi''))) = Inr (JStr (lit ''hi''))"
    by (simp add: body_with_query_def)
  have w: "\<not> (\<forall>c\<in>set (lit ''hi''). is_white_space c)"
    by (simp add: lit_def is_white_space_def)
  have e: "q_embedContent E [lit ''hi''] = Inr ([1, 0] # [])"
    by (simp add: E_def demo_query_env_def demo_embed_def)
  have sr: "search E collectionName (Some [1, 0]) 5 True
              = Inr [demo_result, demo_result2, demo_result3]"
    by (simp add: E_def demo_query_env_def)
  have ns: "q_numberToString E = (\<lambda>r. [])"
    by (simp add: E_def demo_query_env_def)
  have p: "\<forall>r\<in>set [demo_result, demo_result2, demo_result3]. \<exists>t str.
           get_prop (result_payload r) ''text'' = Inr t
         \<and> js_String (q_numberToString E) t = Inr str"
    by (simp add: ns demo_result_def demo_result2_def demo_result3_def lit_def)
  from grounding_context[OF q w e sr _ p]
  obtain ls ctx where
    a: "context_of (q_numberToString E) [demo_result, demo_result2, demo_result3] = Inr ctx"
    and c: "take 3 (snd (chat E (body_with_query (JStr (lit ''hi''))))) =
         [EmbedContent [lit ''hi''], Search collectionName (Some [1, 0]) 5 True,
          CreateChat (chat_request (chat_preamble @ ctx @ chat_reminder) (lit ''hi''))]"
    and st: "take 3 (snd (chat_stream E (body_with_query (JStr (lit ''hi''))))) =
         [EmbedContent [lit ''hi''], Search collectionName (Some [1, 0]) 5 True,
          CreateChat (stream_request (stream_preamble @ ctx) (lit ''hi''))]"
    by auto
  from a ns demo_context
  have "ctx = lit ''[Chunk 1] alpha'' @ NL @ NL @ lit ''[Chunk 2] beta'' @ NL @ NL
            @ lit ''[Chunk 3] undefined''"
    by simp
  with c st q demo_context show ?thesis
    unfolding E_def by simp
qed

text \<open>
  A stored text without a string form: the conversion throws while the context is built,
  \<open>/chat\<close> answers 500 and the generation provider is not called.
\<close>

lemma unconvertible_text:
  "chat (demo_query_env
           [\<lparr>result_score = 1 / 2,
             result_payload = JObj [(lit ''text'', JObj [(lit ''toString'', JNum 1)])]\<rparr>]
           [Some (lit ''ok'')] [])
        (body_with_query (JStr (lit ''hi'')))
   = (chat_failed (TypeError (lit ''Cannot convert object to primitive value'')),
      [EmbedContent [lit ''hi''], Search collectionName (Some [1, 0]) 5 True])"
  by (simp add: chat_def body_with_query_def demo_query_env_def demo_embed_def
      embeddingModel_def context_of_def js_trim_def lit_def is_white_space_def)

subsection \<open>The sources of an answer\<close>

lemma sources_from_nth:
  "sources_from idx results = Inr entries \<Longrightarrow>
   length entries = length results
   \<and> (\<forall>i<length results. \<exists>t src.
         get_prop (result_payload (results ! i)) ''text'' = Inr (JStr t)
       \<and> get_prop (result_payload (results ! i)) ''source'' = Inr src
       \<and> entries ! i =
           JObj [(lit ''chunk_index'', JNum (of_nat (idx + i + 1))),
                 (lit ''text'', JStr (take 200 t @ lit ''...'')),
                 (lit ''score'', JNum (result_score (results ! i))),
                 (lit ''source'', src)])"
proof (induction results arbitrary: idx entries)
  case Nil
  then show ?case by simp
next
  case (Cons result results)
  from Cons.prems obtain t src es where
    t: "get_prop (result_payload result) ''text'' = Inr (JStr t)"
    and s: "get_prop (result_payload result) ''source'' = Inr src"
    and r: "sources_from (Suc idx) results = Inr es"
    and e: "entries = JObj [(lit ''chunk_index'', JNum (of_nat (idx + 1))),
                 (lit ''text'', JStr (take 200 t @ lit ''...'')),
                 (lit ''score'', JNum (result_score result)),
                 (lit ''source'', src)] # es"
    by (auto simp: substring0_def split: sum.splits jsval.splits)
  from Cons.IH[OF r] have len: "length es = length results"
    and nth: "\<And>i. i < length results \<Longrightarrow> \<exists>t src.
         get_prop (result_payload (results ! i)) ''text'' = Inr (JStr t)
       \<and> get_prop (result_payload (results ! i)) ''source'' = Inr src
       \<and> es ! i =
           JObj [(lit ''chunk_index'', JNum (of_nat (Suc idx + i + 1))),
                 (lit ''text'', JStr (take 200 t @ lit ''...'')),
                 (lit ''score'', JNum (result_score (results ! i))),
                 (lit ''source'', src)]"
    by auto
  show ?case
  proof (intro conjI allI impI)
    show "length entries = length (result # results)" using e len by simp
  next
    fix i assume i: "i < length (result # results)"
    show "\<exists>t src.
         get_prop (result_payload ((result # results) ! i)) ''text'' = Inr (JStr t)
       \<and> get_prop (result_payload ((result # results) ! i)) ''source'' = Inr src
       \<and> entries ! i =
           JObj [(lit ''chunk_index'', JNum (of_nat (idx + i + 1))),
                 (lit ''text'', JStr (take 200 t @ lit ''...'')),
                 (lit ''score'', JNum (result_score ((result # results) ! i))),
                 (lit ''source'', src)]"
    proof (cases i)
      case 0
      with t s e show ?thesis by simp
    next
      case (Suc j)
      with i have "j < length results" by simp
      from nth[OF this] Suc e show ?thesis by simp
    qed
  qed
qed

text \<open>
  Claim C9, as amended.  When \<open>/chat\<close> answers with status 200 on a search that returned
  \<open>n > 0\<close> results, the body is \<open>{ answer, sources }\<close>, \<open>sources\<close> has \<open>n\<close> entries in the
  order of the results, and entry \<open>i\<close> (from 0) is \<open>{ chunk_index, text, score, source }\<close>
  with \<open>chunk_index = i + 1\<close>, \<open>text\<close> the first 200 code units of the stored chunk text
  followed by \<open>...\<close>, \<open>score\<close> the score of result \<open>i\<close> and \<open>source\<close> the stored source.
\<close>

theorem chat_sources:
  assumes "query_of_body body = Inr (JStr s)" and "\<not> (\<forall>c\<in>set s. is_white_space c)"
    and "q_embedContent env [s] = Inr (vec # vecs)"
    and "search env collectionName (Some vec) 5 True = Inr results" and "results \<noteq> []"
    and "fst (chat env body) = Json 200 b"
  shows "\<exists>answer entries.
           b = JObj [(lit ''answer'', JStr answer), (lit ''sources'', JArr entries)]
         \<and> length entries = length results
         \<and> (\<forall>i<length results. \<exists>t src.
               get_prop (result_payload (results ! i)) ''text'' = Inr (JStr t)
             \<and> get_prop (result_payload (results ! i)) ''source'' = Inr src
             \<and> entries ! i =
                 JObj [(lit ''chunk_index'', JNum (of_nat (i + 1))),
                       (lit ''text'', JStr (take 200 t @ lit ''...'')),
                       (lit ''score'', JNum (result_score (results ! i))),
                       (lit ''source'', src)])"
proof -
  from assms(5) obtain result others where rs: "results = result # others"
    by (cases results) auto
  from chat_searched[OF assms(1-4)] rs assms(6)
  obtain choices entries where
    e: "sources_from 0 results = Inr entries"
    and b: "b = JObj [(lit ''answer'', JStr (answer_of choices)), (lit ''sources'', JArr entries)]"
    by (auto simp: chat_failed_def split: sum.splits)
  from sources_from_nth[OF e] b show ?thesis by auto
qed

theorem chat_sources_witness:
  "query_of_body (body_with_query (JStr (lit ''hi''))) = Inr (JStr (lit ''hi''))
   \<and> fst (chat (demo_query_env [demo_result] [Some (lit ''ok'')]
                 [[Some (lit ''o'')], [], [Some (lit ''k'')]])
               (body_with_query (JStr (lit ''hi''))))
       = Json 200
           (JObj [(lit ''answer'', JStr (lit ''ok'')),
                  (lit ''sources'',
                   JArr [JObj [(lit ''chunk_index'', JNum 1),
                               (lit ''text'', JStr (lit ''alpha...'')),
                               (lit ''score'', JNum (1 / 2)),
                               (lit ''source'', JStr (lit ''a.pdf''))]])])
   \<and> get_prop (result_payload demo_result) ''text'' = Inr (JStr (lit ''alpha''))"
  using chat_sources[of "body_with_query (JStr (lit ''hi''))" "lit ''hi''"
      "demo_query_env [demo_result] [Some (lit ''ok'')] [[Some (lit ''o'')], [], [Some (lit ''k'')]]"
      "[1, 0]" "[]" "[demo_result]"]
    demo_chat
  by (simp add: body_with_query_def demo_result_def lit_def)

text \<open>
  The claim as stated names the preview \<open>text_preview\<close>; the entries have no such member,
  the preview is their \<open>text\<close>.
\<close>

theorem sources_have_no_text_preview:
  "fst (chat (demo_query_env [demo_result] [Some (lit ''ok'')]
                 [[Some (lit ''o'')], [], [Some (lit ''k'')]])
               (body_with_query (JStr (lit ''hi''))))
       = Json 200
           (JObj [(lit ''answer'', JStr (lit ''ok'')),
                  (lit ''sources'',
                   JArr [JObj [(lit ''chunk_index'', JNum 1),
                               (lit ''text'', JStr (lit ''alpha...'')),
                               (lit ''score'', JNum (1 / 2)),
                               (lit ''source'', JStr (lit ''a.pdf''))]])])
   \<and> get_prop (JObj [(lit ''chunk_index'', JNum 1),
                     (lit ''text'', JStr (lit ''alpha...'')),
                     (lit ''score'', JNum (1 / 2)),
                     (lit ''source'', JStr (lit ''a.pdf''))]) ''text_preview'' = Inr JUndefined
   \<and> get_prop (JObj [(lit ''chunk_index'', JNum 1),
                     (lit ''text'', JStr (lit ''alpha...'')),
                     (lit ''score'', JNum (1 / 2)),
                     (lit ''source'', JStr (lit ''a.pdf''))]) ''text''
       = Inr (JStr (lit ''alpha...''))"
  by (simp add: chat_def body_with_query_def demo_query_env_def
      demo_embed_def embeddingModel_def demo_result_def context_of_def chat_systemPrompt_def
      substring0_def js_trim_def show_nat.simps lit_def is_white_space_def)

subsection \<open>Streaming and batch\<close>














text \<open>
  They differ as well when the provider returns the empty text: \<open>/chat\<close> answers
  \<open>No response generated\<close>, \<open>/chat/stream\<close> streams nothing.
\<close>

lemma empty_answer_differs:
  "streamed_text (fst (chat_stream (demo_query_env [demo_result] [Some []] [])
                         (body_with_query (JStr (lit ''hi'')))))
     = []
   \<and> answer_text (fst (chat (demo_query_env [demo_result] [Some []] [])
                         (body_with_query (JStr (lit ''hi'')))))
     = lit ''No response generated''"
  by (simp add: chat_def chat_stream_def body_with_query_def
      demo_query_env_def demo_embed_def embeddingModel_def demo_result_def context_of_def
      substring0_def js_trim_def show_nat.simps done_event_def event_content_def
      lit_def is_white_space_def)

end
